theory Spec2Isabelle
  imports Main
begin

section \<open>The capture forwarder (supabase/functions/capture/index.ts)\<close>

text \<open>
  The handler passed to \<^verbatim>\<open>Deno.serve\<close> is embedded as a function of the inbound request
  and of a \<^emph>\<open>world\<close>: the answers of everything the handler calls but does not define
  (the URL constructor, \<^verbatim>\<open>fetch\<close>, the environment, the logging client, the clock).
  Exceptions are values (\<open>Inl\<close> of a sum), the two \<^verbatim>\<open>try\<close> blocks are the places
  where an \<open>Inl\<close> is turned back into a normal result, and every call on the platform
  or on the logging client is recorded in a trace, so that what ran is part of the
  result. Console output is not modelled.
\<close>

subsection \<open>Strings and arrays as the handler uses them\<close>

text \<open>\<^verbatim>\<open>s.startsWith(p)\<close> and \<^verbatim>\<open>s.includes(sub)\<close>.\<close>

fun startsWith :: "string \<Rightarrow> string \<Rightarrow> bool" where
  "startsWith s [] = True"
| "startsWith [] (p # ps) = False"
| "startsWith (c # cs) (p # ps) = (c = p \<and> startsWith cs ps)"

fun str_includes :: "string \<Rightarrow> string \<Rightarrow> bool" where
  "str_includes [] sub = (sub = [])"
| "str_includes (c # cs) sub = (startsWith (c # cs) sub \<or> str_includes cs sub)"

text \<open>\<^verbatim>\<open>s.split('/')\<close>: the pieces between the separators, empty pieces kept.\<close>

fun split_on :: "char \<Rightarrow> string \<Rightarrow> string list" where
  "split_on d [] = [[]]"
| "split_on d (c # cs) =
     (if c = d then [] # split_on d cs
      else (case split_on d cs of [] \<Rightarrow> [[c]] | x # xs \<Rightarrow> (c # x) # xs))"

text \<open>\<^verbatim>\<open>xs.join(sep)\<close>.\<close>

fun join :: "string \<Rightarrow> string list \<Rightarrow> string" where
  "join sep [] = []"
| "join sep [x] = x"
| "join sep (x # y # ys) = x @ sep @ join sep (y # ys)"

text \<open>\<^verbatim>\<open>xs.indexOf(x)\<close>: the first index holding \<open>x\<close>, or \<open>-1\<close>.\<close>

fun indexOf_from :: "string list \<Rightarrow> string \<Rightarrow> nat \<Rightarrow> int" where
  "indexOf_from [] x i = - 1"
| "indexOf_from (y # ys) x i = (if y = x then int i else indexOf_from ys x (Suc i))"

definition indexOf :: "string list \<Rightarrow> string \<Rightarrow> int" where
  "indexOf xs x = indexOf_from xs x 0"

text \<open>\<^verbatim>\<open>xs.slice(n)\<close> for the non-negative \<open>n\<close> the handler passes.\<close>

definition slice :: "string list \<Rightarrow> int \<Rightarrow> string list" where
  "slice xs n = drop (nat n) xs"

text \<open>\<^verbatim>\<open>s.replace(/\/$/, '')\<close> and \<^verbatim>\<open>s.replace(/^\//, '')\<close>: at most one slash goes.\<close>

definition strip_trailing_slash :: "string \<Rightarrow> string" where
  "strip_trailing_slash s = (if s \<noteq> [] \<and> last s = CHR ''/'' then butlast s else s)"

definition strip_leading_slash :: "string \<Rightarrow> string" where
  "strip_leading_slash s = (case s of [] \<Rightarrow> [] | c # cs \<Rightarrow> if c = CHR ''/'' then cs else s)"

subsection \<open>JavaScript values and the alias table\<close>

text \<open>
  \<open>targetBase\<close> holds whatever \<^verbatim>\<open>headers.get\<close>, \<^verbatim>\<open>searchParams.get\<close> or a property
  read of \<^verbatim>\<open>ENDPOINT_MAP\<close> returns: \<^verbatim>\<open>null\<close>, \<^verbatim>\<open>undefined\<close>, a string, or (for a
  property inherited from \<^verbatim>\<open>Object.prototype\<close>) a function, kept here by its name.
\<close>

datatype jsval = JNull | JUndefined | JString string | JFunction string

fun truthy :: "jsval \<Rightarrow> bool" where
  "truthy JNull = False"
| "truthy JUndefined = False"
| "truthy (JString s) = (s \<noteq> [])"
| "truthy (JFunction f) = True"

text \<open>\<^verbatim>\<open>a || b\<close>.\<close>

definition js_or :: "jsval \<Rightarrow> jsval \<Rightarrow> jsval" where
  "js_or a b = (if truthy a then a else b)"

text \<open>The own properties of the object literal of lines 24-32.\<close>

definition ENDPOINT_MAP :: "(string \<times> string) list" where
  "ENDPOINT_MAP =
    [(''anthropic'', ''https://api.anthropic.com''),
     (''openai'', ''https://api.openai.com''),
     (''deepseek'', ''https://api.deepseek.com''),
     (''gemini'', ''https://generativelanguage.googleapis.com''),
     (''groq'', ''https://api.groq.com/openai''),
     (''xrapi'', ''https://api.nextxr.site''),
     (''echo'', ''https://echo.free.beeceptor.com'')]"

text \<open>
  \<^verbatim>\<open>ENDPOINT_MAP\<close> is a plain object literal, so a property read that finds no own
  property goes on to \<^verbatim>\<open>Object.prototype\<close>. These are the method names every such
  object inherits (ECMAScript, properties of the Object prototype object, with the
  legacy accessor helpers of its annex B); \<^verbatim>\<open>__proto__\<close> is left out, since the Deno
  runtime removes it.
\<close>

definition Object_prototype_methods :: "string list" where
  "Object_prototype_methods =
    [''constructor'', ''hasOwnProperty'', ''isPrototypeOf'', ''propertyIsEnumerable'',
     ''toLocaleString'', ''toString'', ''valueOf'',
     ''__defineGetter__'', ''__defineSetter__'', ''__lookupGetter__'', ''__lookupSetter__'']"

text \<open>\<^verbatim>\<open>ENDPOINT_MAP[k]\<close>.\<close>

definition ENDPOINT_MAP_get :: "string \<Rightarrow> jsval" where
  "ENDPOINT_MAP_get k =
     (case map_of ENDPOINT_MAP k of
        Some v \<Rightarrow> JString v
      | None \<Rightarrow> if k \<in> set Object_prototype_methods then JFunction k else JUndefined)"

subsection \<open>Requests and target resolution (lines 35-85)\<close>

text \<open>
  A body is a stream of bytes: it either delivers all of them, or fails after a part of
  them. A \<open>string\<close> that holds a body holds its bytes; a \<open>string\<close> that holds a JavaScript
  string holds the UTF-8 encoding of that string, so that a text and the bytes it was
  read from can be compared byte by byte.
\<close>

datatype stream = Complete string | Failing string

datatype error = Error string

fun message :: "error \<Rightarrow> string" where
  "message (Error m) = m"

text \<open>
  \<^verbatim>\<open>text()\<close> decodes the bytes as UTF-8 (Encoding Standard, UTF-8 decoder): a byte that
  cannot start or continue a sequence ends the sequence read so far, which becomes
  U+FFFD, and is read again as the start of the next one; a sequence cut off by the end
  of the bytes becomes U+FFFD too. Well-formed sequences come out as the bytes they went
  in as, and U+FFFD as its three bytes.
\<close>

definition byte :: "char \<Rightarrow> nat" where
  "byte c = of_char c"

definition continuation :: "char \<Rightarrow> nat \<Rightarrow> nat \<Rightarrow> bool" where
  "continuation c lower upper = (lower \<le> byte c \<and> byte c \<le> upper)"

definition replacement :: string where
  "replacement = [CHR 0xEF, CHR 0xBF, CHR 0xBD]"

fun utf8_decode_without_BOM :: "string \<Rightarrow> string" where
  "utf8_decode_without_BOM [] = []"
| "utf8_decode_without_BOM (b # bs) =
     (if byte b \<le> 0x7F then b # utf8_decode_without_BOM bs
      else if 0xC2 \<le> byte b \<and> byte b \<le> 0xDF then
        (case bs of
           [] \<Rightarrow> replacement
         | c # cs \<Rightarrow>
             if continuation c 0x80 0xBF then b # c # utf8_decode_without_BOM cs
             else replacement @ utf8_decode_without_BOM bs)
      else if 0xE0 \<le> byte b \<and> byte b \<le> 0xEF then
        (case bs of
           [] \<Rightarrow> replacement
         | c # cs \<Rightarrow>
             if continuation c (if byte b = 0xE0 then 0xA0 else 0x80)
                               (if byte b = 0xED then 0x9F else 0xBF) then
               (case cs of
                  [] \<Rightarrow> replacement
                | d # ds \<Rightarrow>
                    if continuation d 0x80 0xBF then b # c # d # utf8_decode_without_BOM ds
                    else replacement @ utf8_decode_without_BOM cs)
             else replacement @ utf8_decode_without_BOM bs)
      else if 0xF0 \<le> byte b \<and> byte b \<le> 0xF4 then
        (case bs of
           [] \<Rightarrow> replacement
         | c # cs \<Rightarrow>
             if continuation c (if byte b = 0xF0 then 0x90 else 0x80)
                               (if byte b = 0xF4 then 0x8F else 0xBF) then
               (case cs of
                  [] \<Rightarrow> replacement
                | d # ds \<Rightarrow>
                    if continuation d 0x80 0xBF then
                      (case ds of
                         [] \<Rightarrow> replacement
                       | e # es \<Rightarrow>
                           if continuation e 0x80 0xBF then
                             b # c # d # e # utf8_decode_without_BOM es
                           else replacement @ utf8_decode_without_BOM ds)
                    else replacement @ utf8_decode_without_BOM cs)
             else replacement @ utf8_decode_without_BOM bs)
      else replacement @ utf8_decode_without_BOM bs)"

text \<open>The byte order mark, which the decoder of \<^verbatim>\<open>text()\<close> drops when the bytes start with it.\<close>

definition BOM :: string where
  "BOM = [CHR 0xEF, CHR 0xBB, CHR 0xBF]"

definition utf8_decode :: "string \<Rightarrow> string" where
  "utf8_decode bs =
     (if startsWith bs BOM then utf8_decode_without_BOM (drop 3 bs)
      else utf8_decode_without_BOM bs)"


text \<open>\<^verbatim>\<open>text()\<close> on a copy of the stream: the decoded text, or an exception.\<close>

fun read_text :: "stream \<Rightarrow> error + string" where
  "read_text (Complete bs) = Inr (utf8_decode bs)"
| "read_text (Failing bs) = Inl (Error ''error reading a body from connection'')"

text \<open>
  The inbound request: \<^verbatim>\<open>req.method\<close>, the fields of \<^verbatim>\<open>new URL(req.url)\<close> the handler
  reads (\<^verbatim>\<open>pathname\<close>, \<^verbatim>\<open>search\<close>, \<^verbatim>\<open>searchParams\<close>), \<^verbatim>\<open>req.headers\<close> (names in
  lower case, as the Headers class keeps them) and \<^verbatim>\<open>req.body\<close>.
\<close>

record request =
  req_method :: string
  pathname :: string
  search :: string
  searchParams :: "(string \<times> string) list"
  req_headers :: "(string \<times> string) list"
  req_body :: stream

text \<open>\<^verbatim>\<open>headers.get(name)\<close> and \<^verbatim>\<open>searchParams.get(name)\<close>: the value, or \<^verbatim>\<open>null\<close>.\<close>

definition get_or_null :: "(string \<times> string) list \<Rightarrow> string \<Rightarrow> jsval" where
  "get_or_null kvs k = (case map_of kvs k of None \<Rightarrow> JNull | Some v \<Rightarrow> JString v)"

text \<open>Line 35.\<close>

definition override_target :: "request \<Rightarrow> jsval" where
  "override_target req =
     js_or (get_or_null (req_headers req) ''x-proxy-target'')
           (get_or_null (searchParams req) ''_target'')"

text \<open>Line 38.\<close>

definition pathSegments_of :: "request \<Rightarrow> string list" where
  "pathSegments_of req = filter (\<lambda>s. s \<noteq> []) (split_on CHR ''/'' (pathname req))"

text \<open>
  The loop of lines 43-52, from index \<open>i\<close> on the segments not yet visited: the pair
  \<open>(aliasIndex, matchedAlias)\<close> it leaves.
\<close>

fun alias_scan :: "string list \<Rightarrow> nat \<Rightarrow> int \<times> string" where
  "alias_scan [] i = (- 1, [])"
| "alias_scan (s # ss) i =
     (if truthy (ENDPOINT_MAP_get s) then (int i, s) else alias_scan ss (Suc i))"

text \<open>Lines 35-85: the pair \<open>(targetBase, proxyPath)\<close> the branches leave.\<close>

definition resolve_target :: "request \<Rightarrow> jsval \<times> string" where
  "resolve_target req =
     (let targetBase = override_target req;
          proxyPath = pathname req;
          pathSegments = pathSegments_of req
      in if \<not> truthy targetBase then
           (case alias_scan pathSegments 0 of
              (aliasIndex, matchedAlias) \<Rightarrow>
                if aliasIndex \<noteq> - 1 then
                  (ENDPOINT_MAP_get matchedAlias,
                   ''/'' @ join ''/'' (slice pathSegments (aliasIndex + 1)))
                else
                  (let funcNameIndex = indexOf pathSegments ''capture'' in
                   if funcNameIndex \<noteq> - 1 then
                     (JString ''https://api.anthropic.com'',
                      ''/'' @ join ''/'' (slice pathSegments (funcNameIndex + 1)))
                   else if length pathSegments \<ge> 3 \<and> pathSegments ! 0 = ''functions''
                           \<and> pathSegments ! 1 = ''v1'' then
                     (JString ''https://api.anthropic.com'',
                      ''/'' @ join ''/'' (slice pathSegments 3))
                   else (JString ''https://api.anthropic.com'', proxyPath)))
         else
           (let funcNameIndex = indexOf pathSegments ''capture'' in
            if funcNameIndex \<noteq> - 1 then
              (targetBase, ''/'' @ join ''/'' (slice pathSegments (funcNameIndex + 1)))
            else (targetBase, proxyPath)))"

subsection \<open>Responses, the world and the trace\<close>

text \<open>
  A response is what the handler hands to the runtime: for an upstream response the
  upstream's status, headers and body stream; for \<^verbatim>\<open>new Response(body, init)\<close> the
  arguments of the constructor (status 200 when \<open>init\<close> names none), so that \<open>headers\<close>
  are the headers the handler's code sets; the headers the response object carries are
  \<open>headers_carried\<close> below. \<open>JSON_error_object m\<close> stands for the text
  \<^verbatim>\<open>JSON.stringify({ error: m })\<close> of line 224.
\<close>

datatype body = Stream stream | Text string | JSON_error_object string

record response =
  status :: nat
  headers :: "(string \<times> string) list"
  body :: body

text \<open>
  What \<^verbatim>\<open>fetch\<close> resolves to: the upstream's status, its headers (names in lower case)
  and its body stream. Returned by the handler, it is the response \<open>passed_through\<close>.
\<close>

record upstream =
  up_status :: nat
  up_headers :: "(string \<times> string) list"
  up_body :: stream

definition passed_through :: "upstream \<Rightarrow> response" where
  "passed_through res =
     \<lparr>status = up_status res, headers = up_headers res, body = Stream (up_body res)\<rparr>"

text \<open>
  The headers the response object carries. A response that \<^verbatim>\<open>fetch\<close> resolved to carries
  the upstream's headers. One made by \<^verbatim>\<open>new Response(body, init)\<close> from a string carries
  the headers of \<open>init\<close> and, when none of them is named \<^verbatim>\<open>content-type\<close> (in any
  case of letters), the content type of a string body, \<^verbatim>\<open>text/plain;charset=UTF-8\<close>
  (Fetch Standard, the Response constructor).
\<close>

definition ascii_lower :: "char \<Rightarrow> char" where
  "ascii_lower c =
     (case map_of (zip ''ABCDEFGHIJKLMNOPQRSTUVWXYZ'' ''abcdefghijklmnopqrstuvwxyz'') c of
        Some l \<Rightarrow> l
      | None \<Rightarrow> c)"

definition names_content_type :: "(string \<times> string) list \<Rightarrow> bool" where
  "names_content_type hs = (''content-type'' \<in> set (map (\<lambda>kv. map ascii_lower (fst kv)) hs))"

definition headers_carried :: "response \<Rightarrow> (string \<times> string) list" where
  "headers_carried r =
     (case body r of
        Stream st \<Rightarrow> headers r
      | Text t \<Rightarrow>
          if names_content_type (headers r) then headers r
          else headers r @ [(''content-type'', ''text/plain;charset=UTF-8'')]
      | JSON_error_object m \<Rightarrow>
          if names_content_type (headers r) then headers r
          else headers r @ [(''content-type'', ''text/plain;charset=UTF-8'')])"

text \<open>The arguments of the \<^verbatim>\<open>fetch\<close> of lines 120-124.\<close>

record fetch_request =
  fetch_url :: string
  fetch_method :: string
  fetch_headers :: "(string \<times> string) list"
  fetch_body :: stream

text \<open>The row offered to \<^verbatim>\<open>api_logs\<close> (lines 163-173).\<close>

record log_record =
  log_method :: string
  log_url :: string
  request_headers :: "(string \<times> string) list"
  request_body :: "string option"
  response_status :: nat
  response_headers :: "(string \<times> string) list"
  response_body :: "string option"
  duration_ms :: int
  client_ip :: "string option"

text \<open>
  The document \<open>logEntry\<close> of lines 190-206, before \<^verbatim>\<open>JSON.stringify\<close>: its
  \<open>metadata\<close>, \<open>request\<close> and \<open>response\<close> sections, flattened.
\<close>

record log_entry =
  metadata_method :: string
  metadata_url :: string
  metadata_status :: nat
  metadata_duration :: int
  metadata_ip :: "string option"
  entry_request_headers :: "(string \<times> string) list"
  entry_request_body :: "string option"
  entry_response_headers :: "(string \<times> string) list"
  entry_response_body :: "string option"

text \<open>
  What a call of the logging client comes back with: it throws (\<open>Inl\<close>), or it returns
  \<^verbatim>\<open>{ data, error }\<close> with \<open>error\<close> null (\<open>Inr None\<close>) or set (\<open>Inr (Some e)\<close>).
\<close>

type_synonym sdk_result = "error + error option"

text \<open>
  The world: \<^verbatim>\<open>new URL(rel, base).toString()\<close>, \<^verbatim>\<open>fetch\<close>, \<^verbatim>\<open>Deno.env.get\<close>,
  \<^verbatim>\<open>createClient\<close> (which may throw), the four calls on the client, the two readings of
  \<^verbatim>\<open>Date.now()\<close>, \<^verbatim>\<open>new Date().toISOString()\<close> and \<^verbatim>\<open>crypto.randomUUID()\<close>.
\<close>

record world =
  new_URL :: "string \<Rightarrow> string \<Rightarrow> error + string"
  fetch :: "fetch_request \<Rightarrow> error + upstream"
  env_get :: "string \<Rightarrow> string option"
  createClient :: "string \<Rightarrow> string \<Rightarrow> error option"
  db_insert :: "log_record \<Rightarrow> sdk_result"
  getBucket :: "string \<Rightarrow> sdk_result"
  createBucket :: "string \<Rightarrow> sdk_result"
  upload :: "string \<Rightarrow> string \<Rightarrow> log_entry \<Rightarrow> sdk_result"
  startTime :: int
  endTime :: int
  toISOString :: string
  randomUUID :: string

text \<open>
  How a call on the logging client ended, as the trace keeps it. A row is in the table,
  and an object in the bucket, exactly when the call that writes it ended \<open>Done\<close>.
\<close>

datatype outcome = Done | Refused | Threw

fun outcome_of :: "sdk_result \<Rightarrow> outcome" where
  "outcome_of (Inl e) = Threw"
| "outcome_of (Inr None) = Done"
| "outcome_of (Inr (Some e)) = Refused"

datatype event =
    ReadRequestText
  | Fetch fetch_request
  | ReadResponseText
  | CreateClient string string
  | Insert log_record outcome
  | GetBucket string outcome
  | CreateBucket string outcome
  | Upload string string log_entry outcome

text \<open>The rows and the objects a trace leaves behind.\<close>

fun inserted_row :: "event \<Rightarrow> log_record list" where
  "inserted_row (Insert r Done) = [r]"
| "inserted_row e = []"

fun created_object :: "event \<Rightarrow> (string \<times> string \<times> log_entry) list" where
  "created_object (Upload b p d Done) = [(b, p, d)]"
| "created_object e = []"

definition rows_inserted :: "event list \<Rightarrow> log_record list" where
  "rows_inserted tr = concat (map inserted_row tr)"

definition objects_created :: "event list \<Rightarrow> (string \<times> string \<times> log_entry) list" where
  "objects_created tr = concat (map created_object tr)"

subsection \<open>The stages of the handler\<close>

text \<open>
  Lines 88-91. \<^verbatim>\<open>targetBase.replace\<close> exists on a string only: on anything else the
  call throws a TypeError.
\<close>

definition build_target_url :: "world \<Rightarrow> request \<Rightarrow> jsval \<Rightarrow> string \<Rightarrow> error + string" where
  "build_target_url w req targetBase proxyPath =
     (case targetBase of
        JString b \<Rightarrow>
          (let normalizedTargetBase = strip_trailing_slash b;
               normalizedProxyPath = strip_leading_slash proxyPath
           in case new_URL w normalizedProxyPath (normalizedTargetBase @ ''/'') of
                Inl e \<Rightarrow> Inl e
              | Inr u \<Rightarrow> Inr (u @ search req))
      | JFunction f \<Rightarrow> Inl (Error ''targetBase.replace is not a function'')
      | JNull \<Rightarrow> Inl (Error ''Cannot read properties of null'')
      | JUndefined \<Rightarrow> Inl (Error ''Cannot read properties of undefined''))"

text \<open>\<^verbatim>\<open>obj[k] || ''\<close> on the object \<^verbatim>\<open>Object.fromEntries(headers.entries())\<close>.\<close>

definition get_or_empty :: "(string \<times> string) list \<Rightarrow> string \<Rightarrow> string" where
  "get_or_empty kvs k = (case map_of kvs k of None \<Rightarrow> [] | Some v \<Rightarrow> v)"

text \<open>Lines 94-104: \<open>requestBody\<close>, and whether the copy of the request was read.\<close>

definition read_request_body :: "request \<Rightarrow> string option \<times> event list" where
  "read_request_body req =
     (let contentType = get_or_empty (req_headers req) ''content-type'' in
      if str_includes contentType ''application/json'' \<or> str_includes contentType ''text/'' then
        (case read_text (req_body req) of
           Inr t \<Rightarrow> (Some t, [ReadRequestText])
         | Inl e \<Rightarrow> (None, [ReadRequestText]))
      else (None, []))"

text \<open>Lines 107-109.\<close>

definition forwardHeaders :: "request \<Rightarrow> (string \<times> string) list" where
  "forwardHeaders req =
     filter (\<lambda>kv. fst kv \<noteq> ''host'' \<and> fst kv \<noteq> ''x-proxy-target'') (req_headers req)"

text \<open>
  Lines 114-148: the four variables the block leaves (\<open>response\<close>, \<open>responseStatus\<close>,
  \<open>responseHeaders\<close>, \<open>responseBody\<close>) and what it called.
\<close>

record forwarded =
  fw_response :: response
  responseStatus :: nat
  responseHeaders :: "(string \<times> string) list"
  responseBody :: "string option"

text \<open>Lines 146-147: \<^verbatim>\<open>new Response(responseBody, { status: 502 })\<close>.\<close>

definition bad_gateway :: "error \<Rightarrow> response" where
  "bad_gateway err =
     \<lparr>status = 502, headers = [],
      body = Text (''Error connecting to upstream: '' @ message err)\<rparr>"

definition forward :: "world \<Rightarrow> fetch_request \<Rightarrow> forwarded \<times> event list" where
  "forward w fr =
     (case fetch w fr of
        Inr res \<Rightarrow>
          (let contentTypeRes = get_or_empty (up_headers res) ''content-type'';
               isStreaming = str_includes contentTypeRes ''text/event-stream''
           in if isStreaming then
                (\<lparr>fw_response = passed_through res, responseStatus = up_status res,
                  responseHeaders = up_headers res,
                  responseBody = Some ''[STREAMING RESPONSE]''\<rparr>, [Fetch fr])
              else if str_includes contentTypeRes ''application/json''
                      \<or> str_includes contentTypeRes ''text/'' then
                (case read_text (up_body res) of
                   Inr t \<Rightarrow>
                     (\<lparr>fw_response = passed_through res, responseStatus = up_status res,
                       responseHeaders = up_headers res, responseBody = Some t\<rparr>,
                      [Fetch fr, ReadResponseText])
                 | Inl e \<Rightarrow>
                     (\<lparr>fw_response = passed_through res, responseStatus = up_status res,
                       responseHeaders = up_headers res,
                       responseBody = Some ''[Error reading response body]''\<rparr>,
                      [Fetch fr, ReadResponseText]))
              else
                (\<lparr>fw_response = passed_through res, responseStatus = up_status res,
                  responseHeaders = up_headers res, responseBody = None\<rparr>, [Fetch fr]))
      | Inl err \<Rightarrow>
          (\<lparr>fw_response = bad_gateway err, responseStatus = 502, responseHeaders = [],
            responseBody = Some (''Error connecting to upstream: '' @ message err)\<rparr>,
           [Fetch fr]))"

text \<open>
  Lines 189 and 208: the object key, from \<^verbatim>\<open>toISOString().replace(/[:.]/g, '-')\<close> and
  \<^verbatim>\<open>randomUUID().slice(0, 8)\<close>.
\<close>

definition filePath_of :: "world \<Rightarrow> string" where
  "filePath_of w =
     (let timestamp = map (\<lambda>c. if c = CHR '':'' \<or> c = CHR ''.'' then CHR ''-'' else c)
                          (toISOString w)
      in timestamp @ ''_'' @ take 8 (randomUUID w) @ ''.json'')"

text \<open>
  Lines 179-218, the fallback inside its own \<^verbatim>\<open>try\<close>: whatever throws there ends the
  block and nothing more. The results \<^verbatim>\<open>createBucket\<close> and \<^verbatim>\<open>upload\<close> return are not
  looked at.
\<close>

definition storage_fallback :: "world \<Rightarrow> log_entry \<Rightarrow> event list" where
  "storage_fallback w logEntry =
     (let bucketName = ''capture_logs'' in
      case getBucket w bucketName of
        Inl e \<Rightarrow> [GetBucket bucketName Threw]
      | Inr bucketError \<Rightarrow>
          (let missing = (case bucketError of
                            None \<Rightarrow> False
                          | Some e \<Rightarrow> str_includes (message e) ''not found'');
               created = createBucket w bucketName;
               filePath = filePath_of w
           in if missing \<and> outcome_of created = Threw then
                [GetBucket bucketName (outcome_of (Inr bucketError)),
                 CreateBucket bucketName Threw]
              else
                [GetBucket bucketName (outcome_of (Inr bucketError))]
                @ (if missing then [CreateBucket bucketName (outcome_of created)] else [])
                @ [Upload bucketName filePath logEntry
                     (outcome_of (upload w bucketName filePath logEntry))]))"

text \<open>\<^verbatim>\<open>Deno.env.get(k) ?? ''\<close>.\<close>

definition env_or_empty :: "world \<Rightarrow> string \<Rightarrow> string" where
  "env_or_empty w k = (case env_get w k of None \<Rightarrow> [] | Some v \<Rightarrow> v)"

text \<open>
  Lines 153-219: the trace of the logging block, and the exception that leaves it, if
  any. Both \<^verbatim>\<open>createClient\<close> calls and the awaited insert stand outside the inner
  \<^verbatim>\<open>try\<close>.
\<close>

definition log_to_supabase :: "world \<Rightarrow> log_record \<Rightarrow> log_entry \<Rightarrow> event list \<times> error option" where
  "log_to_supabase w row logEntry =
     (let supabaseUrl = env_or_empty w ''SUPABASE_URL'';
          supabaseAnonKey = env_or_empty w ''SUPABASE_ANON_KEY'';
          supabaseServiceKey = env_or_empty w ''SUPABASE_SERVICE_ROLE_KEY''
      in case createClient w supabaseUrl supabaseServiceKey of
           Some e \<Rightarrow> ([CreateClient supabaseUrl supabaseServiceKey], Some e)
         | None \<Rightarrow>
             (case createClient w supabaseUrl supabaseAnonKey of
                Some e \<Rightarrow>
                  ([CreateClient supabaseUrl supabaseServiceKey,
                    CreateClient supabaseUrl supabaseAnonKey], Some e)
              | None \<Rightarrow>
                  (case db_insert w row of
                     Inl e \<Rightarrow>
                       ([CreateClient supabaseUrl supabaseServiceKey,
                         CreateClient supabaseUrl supabaseAnonKey,
                         Insert row Threw], Some e)
                   | Inr None \<Rightarrow>
                       ([CreateClient supabaseUrl supabaseServiceKey,
                         CreateClient supabaseUrl supabaseAnonKey,
                         Insert row Done], None)
                   | Inr (Some dbError) \<Rightarrow>
                       ([CreateClient supabaseUrl supabaseServiceKey,
                         CreateClient supabaseUrl supabaseAnonKey,
                         Insert row Refused] @ storage_fallback w logEntry, None))))"

subsection \<open>The handler\<close>

text \<open>Lines 4-8.\<close>

definition corsHeaders :: "(string \<times> string) list" where
  "corsHeaders =
    [(''Access-Control-Allow-Origin'', ''*''),
     (''Access-Control-Allow-Headers'',
      ''authorization, x-client-info, apikey, content-type, x-proxy-target, x-anthropic-version, anthropic-version''),
     (''Access-Control-Allow-Methods'', ''POST, GET, OPTIONS, PUT, DELETE, PATCH'')]"

text \<open>\<^verbatim>\<open>obj[k] || null\<close> and \<^verbatim>\<open>obj[k]\<close> (undefined as \<open>None\<close>), for the client address.\<close>

definition get_or_none :: "(string \<times> string) list \<Rightarrow> string \<Rightarrow> string option" where
  "get_or_none kvs k =
     (case map_of kvs k of None \<Rightarrow> None | Some v \<Rightarrow> if v = [] then None else Some v)"

text \<open>The row of lines 163-173 and the document of lines 190-206.\<close>

definition row_of :: "world \<Rightarrow> request \<Rightarrow> string \<Rightarrow> string option \<Rightarrow> forwarded \<Rightarrow> log_record" where
  "row_of w req targetUrl requestBody fw =
     \<lparr>log_method = req_method req, log_url = targetUrl,
      request_headers = req_headers req, request_body = requestBody,
      response_status = responseStatus fw, response_headers = responseHeaders fw,
      response_body = responseBody fw, duration_ms = endTime w - startTime w,
      client_ip = get_or_none (req_headers req) ''x-forwarded-for''\<rparr>"

definition entry_of :: "world \<Rightarrow> request \<Rightarrow> string \<Rightarrow> string option \<Rightarrow> forwarded \<Rightarrow> log_entry" where
  "entry_of w req targetUrl requestBody fw =
     \<lparr>metadata_method = req_method req, metadata_url = targetUrl,
      metadata_status = responseStatus fw, metadata_duration = endTime w - startTime w,
      metadata_ip = map_of (req_headers req) ''x-forwarded-for'',
      entry_request_headers = req_headers req, entry_request_body = requestBody,
      entry_response_headers = responseHeaders fw, entry_response_body = responseBody fw\<rparr>"

text \<open>Lines 35-91: \<open>targetUrl\<close>, or the exception one of these lines throws.\<close>

definition targetUrl_of :: "world \<Rightarrow> request \<Rightarrow> error + string" where
  "targetUrl_of w req =
     (case resolve_target req of
        (targetBase, proxyPath) \<Rightarrow> build_target_url w req targetBase proxyPath)"

text \<open>The arguments the handler gives \<^verbatim>\<open>fetch\<close> (lines 120-124).\<close>

definition outbound :: "request \<Rightarrow> string \<Rightarrow> fetch_request" where
  "outbound req targetUrl =
     \<lparr>fetch_url = targetUrl, fetch_method = req_method req,
      fetch_headers = forwardHeaders req, fetch_body = req_body req\<rparr>"

text \<open>
  The body of the outer \<^verbatim>\<open>try\<close> (lines 17-221): the trace, and either the response of
  \<^verbatim>\<open>return response\<close> or the exception that reaches the outer \<^verbatim>\<open>catch\<close>.
\<close>

definition handler_try :: "world \<Rightarrow> request \<Rightarrow> event list \<times> (error + response)" where
  "handler_try w req =
     (case targetUrl_of w req of
        Inl err \<Rightarrow> ([], Inl err)
      | Inr targetUrl \<Rightarrow>
          (case read_request_body req of
             (requestBody, read) \<Rightarrow>
               (case forward w (outbound req targetUrl) of
                  (fw, sent) \<Rightarrow>
                    (case log_to_supabase w (row_of w req targetUrl requestBody fw)
                            (entry_of w req targetUrl requestBody fw) of
                       (logged, Some err) \<Rightarrow> (read @ sent @ logged, Inl err)
                     | (logged, None) \<Rightarrow> (read @ sent @ logged, Inr (fw_response fw))))))"

text \<open>Line 13: \<^verbatim>\<open>new Response('ok', { headers: corsHeaders })\<close>.\<close>

definition preflight_response :: response where
  "preflight_response = \<lparr>status = 200, headers = corsHeaders, body = Text ''ok''\<rparr>"

text \<open>Lines 224-227, the response of the outer \<^verbatim>\<open>catch\<close>.\<close>

definition internal_error :: "error \<Rightarrow> response" where
  "internal_error err =
     \<lparr>status = 500, headers = corsHeaders @ [(''Content-Type'', ''application/json'')],
      body = JSON_error_object (message err)\<rparr>"

text \<open>The response the client sees, and everything the handler called on the way.\<close>

record result =
  response :: response
  trace :: "event list"

text \<open>Lines 10-229.\<close>

definition handler :: "world \<Rightarrow> request \<Rightarrow> result" where
  "handler w req =
     (if req_method req = ''OPTIONS'' then \<lparr>response = preflight_response, trace = []\<rparr>
      else
        (case handler_try w req of
           (tr, Inr res) \<Rightarrow> \<lparr>response = res, trace = tr\<rparr>
         | (tr, Inl err) \<Rightarrow> \<lparr>response = internal_error err, trace = tr\<rparr>))"

subsection \<open>Names for the values the handler passes between its stages\<close>

text \<open>\<open>requestBody\<close> (line 100), and the four variables lines 114-148 leave.\<close>

definition requestBody_of :: "request \<Rightarrow> string option" where
  "requestBody_of req = fst (read_request_body req)"

definition forwarded_of :: "world \<Rightarrow> request \<Rightarrow> string \<Rightarrow> forwarded" where
  "forwarded_of w req targetUrl = fst (forward w (outbound req targetUrl))"

text \<open>The logging block, run on the row and the document the handler builds.\<close>

definition logging_of :: "world \<Rightarrow> request \<Rightarrow> string \<Rightarrow> event list \<times> error option" where
  "logging_of w req targetUrl =
     log_to_supabase w
       (row_of w req targetUrl (requestBody_of req) (forwarded_of w req targetUrl))
       (entry_of w req targetUrl (requestBody_of req) (forwarded_of w req targetUrl))"

text \<open>Both clients of lines 158-159 are constructed without an exception.\<close>

definition clients_created :: "world \<Rightarrow> bool" where
  "clients_created w =
     (createClient w (env_or_empty w ''SUPABASE_URL'')
                     (env_or_empty w ''SUPABASE_SERVICE_ROLE_KEY'') = None
      \<and> createClient w (env_or_empty w ''SUPABASE_URL'')
                       (env_or_empty w ''SUPABASE_ANON_KEY'') = None)"

subsection \<open>Sample requests and worlds\<close>

text \<open>
  A URL constructor for the examples: it joins a relative path to an \<^verbatim>\<open>http(s)\<close> base
  and throws on a base without such a scheme. It agrees with the URL Standard on the
  arguments the examples pass; the theorems about all worlds do not depend on it.
\<close>

definition sample_new_URL :: "string \<Rightarrow> string \<Rightarrow> error + string" where
  "sample_new_URL rel base =
     (if startsWith base ''https://'' \<or> startsWith base ''http://'' then Inr (base @ rel)
      else Inl (Error ''Invalid URL''))"

text \<open>An upstream answering every call with a small JSON document.\<close>

definition sample_upstream :: upstream where
  "sample_upstream =
     \<lparr>up_status = 200, up_headers = [(''content-type'', ''application/json'')],
      up_body = Complete ''{}''\<rparr>"

text \<open>A world in which every call succeeds.\<close>

definition sample_world :: world where
  "sample_world =
     \<lparr>new_URL = sample_new_URL,
      fetch = (\<lambda>fr. Inr sample_upstream),
      env_get = (\<lambda>k. Some ''configured''),
      createClient = (\<lambda>u k. None),
      db_insert = (\<lambda>r. Inr None),
      getBucket = (\<lambda>b. Inr None),
      createBucket = (\<lambda>b. Inr None),
      upload = (\<lambda>b p d. Inr None),
      startTime = 1000, endTime = 1250,
      toISOString = ''2024-02-05T10:20:30.123Z'',
      randomUUID = ''123e4567-e89b-12d3-a456-426614174000''\<rparr>"

text \<open>
  The logging client of the source's import rejects an empty URL or key when it is
  constructed; this is that behaviour, as a world may have it.
\<close>

definition strict_createClient :: "string \<Rightarrow> string \<Rightarrow> error option" where
  "strict_createClient u k =
     (if u = [] then Some (Error ''supabaseUrl is required.'')
      else if k = [] then Some (Error ''supabaseKey is required.'')
      else None)"

text \<open>A request for a path, with nothing else set.\<close>

definition get_request :: "string \<Rightarrow> request" where
  "get_request p =
     \<lparr>req_method = ''GET'', pathname = p, search = [], searchParams = [],
      req_headers = [], req_body = Complete []\<rparr>"

text \<open>A request that names its target in the header (and another one in the query).\<close>

definition override_request :: request where
  "override_request =
     \<lparr>req_method = ''POST'', pathname = ''/functions/v1/capture/openai/v1/models'',
      search = [], searchParams = [(''_target'', ''https://ignored.example'')],
      req_headers = [(''x-proxy-target'', ''https://llm.example/api/'')],
      req_body = Complete []\<rparr>"

text \<open>A preflight request, with a path and headers of its own.\<close>

definition preflight_request :: request where
  "preflight_request =
     \<lparr>req_method = ''OPTIONS'', pathname = ''/functions/v1/capture/openai/v1/models'',
      search = ''?_target=https://llm.example'',
      searchParams = [(''_target'', ''https://llm.example'')],
      req_headers = [(''origin'', ''https://app.example''),
                     (''access-control-request-method'', ''POST'')],
      req_body = Complete []\<rparr>"

text \<open>No logging configuration in the environment, and the client that insists on it.\<close>

definition unconfigured_world :: world where
  "unconfigured_world =
     sample_world\<lparr>env_get := (\<lambda>k. None), createClient := strict_createClient\<rparr>"

text \<open>The table is missing and the storage service cannot be reached.\<close>

definition unlogged_world :: world where
  "unlogged_world =
     sample_world\<lparr>db_insert := (\<lambda>r. Inr (Some (Error ''relation api_logs does not exist''))),
                   getBucket := (\<lambda>b. Inl (Error ''connection refused''))\<rparr>"

text \<open>The table is missing, the bucket too, and the fallback creates it and uploads.\<close>

definition fallback_world :: world where
  "fallback_world =
     sample_world\<lparr>db_insert := (\<lambda>r. Inr (Some (Error ''relation api_logs does not exist''))),
                   getBucket := (\<lambda>b. Inr (Some (Error ''Bucket not found'')))\<rparr>"

text \<open>The upstream cannot be reached.\<close>

definition unreachable_world :: world where
  "unreachable_world = sample_world\<lparr>fetch := (\<lambda>fr. Inl (Error ''connection refused''))\<rparr>"

text \<open>An upstream that streams events, and one whose JSON body breaks off.\<close>

definition streaming_upstream :: upstream where
  "streaming_upstream =
     \<lparr>up_status = 200, up_headers = [(''content-type'', ''text/event-stream; charset=utf-8'')],
      up_body = Complete ''data: hello''\<rparr>"

definition broken_upstream :: upstream where
  "broken_upstream =
     \<lparr>up_status = 200, up_headers = [(''content-type'', ''application/json'')],
      up_body = Failing ''{''\<rparr>"

text \<open>A request whose override target is a host name without a scheme.\<close>

definition misdirected_request :: request where
  "misdirected_request =
     \<lparr>req_method = ''POST'', pathname = ''/functions/v1/capture/v1/messages'',
      search = [], searchParams = [],
      req_headers = [(''x-proxy-target'', ''api.example.com'')],
      req_body = Complete []\<rparr>"

text \<open>Worlds whose upstream streams events, or sends a JSON body that breaks off.\<close>

definition streaming_world :: world where
  "streaming_world = sample_world\<lparr>fetch := (\<lambda>fr. Inr streaming_upstream)\<rparr>"

definition unconfigured_streaming_world :: world where
  "unconfigured_streaming_world = unconfigured_world\<lparr>fetch := (\<lambda>fr. Inr streaming_upstream)\<rparr>"

definition broken_world :: world where
  "broken_world = sample_world\<lparr>fetch := (\<lambda>fr. Inr broken_upstream)\<rparr>"

text \<open>
  Upstreams whose JSON body starts with a byte order mark, and whose content type is a
  JSON type that does not contain \<^verbatim>\<open>application/json\<close>.
\<close>

definition bom_upstream :: upstream where
  "bom_upstream =
     \<lparr>up_status = 200, up_headers = [(''content-type'', ''application/json'')],
      up_body = Complete ([CHR 0xEF, CHR 0xBB, CHR 0xBF] @ ''{}'')\<rparr>"

definition problem_upstream :: upstream where
  "problem_upstream =
     \<lparr>up_status = 400, up_headers = [(''content-type'', ''application/problem+json'')],
      up_body = Complete ''{}''\<rparr>"

definition bom_world :: world where
  "bom_world = sample_world\<lparr>fetch := (\<lambda>fr. Inr bom_upstream)\<rparr>"

definition problem_world :: world where
  "problem_world = sample_world\<lparr>fetch := (\<lambda>fr. Inr problem_upstream)\<rparr>"

section \<open>Properties\<close>

subsection \<open>The string helpers are the operations they stand for\<close>

lemma startsWith_iff: "startsWith s p \<longleftrightarrow> (\<exists>post. s = p @ post)"
  by (induction s p rule: startsWith.induct) auto

lemma str_includes_iff: "str_includes s sub \<longleftrightarrow> (\<exists>pre post. s = pre @ sub @ post)"
proof (induction s)
  case Nil
  then show ?case by simp
next
  case (Cons c cs)
  show ?case
  proof
    assume "str_includes (c # cs) sub"
    then consider "startsWith (c # cs) sub" | "str_includes cs sub" by auto
    then show "\<exists>pre post. c # cs = pre @ sub @ post"
    proof cases
      case 1
      then obtain post where "c # cs = sub @ post" by (auto simp add: startsWith_iff)
      then have "c # cs = [] @ sub @ post" by simp
      then show ?thesis by blast
    next
      case 2
      with Cons obtain pre post where "cs = pre @ sub @ post" by blast
      then have "c # cs = (c # pre) @ sub @ post" by simp
      then show ?thesis by blast
    qed
  next
    assume "\<exists>pre post. c # cs = pre @ sub @ post"
    then obtain pre post where eq: "c # cs = pre @ sub @ post" by blast
    show "str_includes (c # cs) sub"
    proof (cases pre)
      case Nil
      with eq have "startsWith (c # cs) sub" by (auto simp add: startsWith_iff)
      then show ?thesis by simp
    next
      case (Cons a pre')
      with eq have "cs = pre' @ sub @ post" by simp
      with Cons.IH have "str_includes cs sub" by blast
      then show ?thesis by simp
    qed
  qed
qed

lemma split_on_not_empty: "split_on d s \<noteq> []"
  by (induction s) (auto split: list.splits)

lemma join_split_on: "join [d] (split_on d s) = s"
proof (induction s)
  case Nil
  then show ?case by simp
next
  case (Cons c cs)
  obtain x xs where sp: "split_on d cs = x # xs"
    using split_on_not_empty [of d cs] by (cases "split_on d cs") auto
  with Cons show ?case
    by (cases xs) auto
qed

lemma split_on_no_separator: "\<forall>seg \<in> set (split_on d s). d \<notin> set seg"
  by (induction s) (auto split: list.splits)

subsection \<open>Arrays: \<open>indexOf\<close> and \<open>slice\<close>\<close>

lemma indexOf_from_absent: "x \<notin> set xs \<Longrightarrow> indexOf_from xs x i = - 1"
  by (induction xs arbitrary: i) auto

lemma indexOf_from_first:
  "x \<notin> set pre \<Longrightarrow> indexOf_from (pre @ x # post) x i = int i + int (length pre)"
  by (induction pre arbitrary: i) auto

lemma indexOf_absent: "x \<notin> set xs \<Longrightarrow> indexOf xs x = - 1"
  by (simp add: indexOf_def indexOf_from_absent)

lemma indexOf_first: "x \<notin> set pre \<Longrightarrow> indexOf (pre @ x # post) x = int (length pre)"
  by (simp add: indexOf_def indexOf_from_first)

lemma slice_after_first: "slice (pre @ x # post) (int (length pre) + 1) = post"
  by (simp add: slice_def nat_add_distrib)

subsection \<open>The override branch\<close>

lemma override_from_header:
  "map_of (req_headers req) ''x-proxy-target'' = Some t \<Longrightarrow> t \<noteq> [] \<Longrightarrow>
   override_target req = JString t"
  by (simp add: override_target_def get_or_null_def js_or_def)

lemma override_from_query:
  "map_of (req_headers req) ''x-proxy-target'' = None
     \<or> map_of (req_headers req) ''x-proxy-target'' = Some [] \<Longrightarrow>
   map_of (searchParams req) ''_target'' = Some t \<Longrightarrow>
   override_target req = JString t"
  by (auto simp add: override_target_def get_or_null_def js_or_def)

lemma resolve_override_capture:
  "override_target req = JString t \<Longrightarrow> t \<noteq> [] \<Longrightarrow>
   pathSegments_of req = pre @ ''capture'' # post \<Longrightarrow> ''capture'' \<notin> set pre \<Longrightarrow>
   resolve_target req = (JString t, ''/'' @ join ''/'' post)"
  by (simp add: resolve_target_def Let_def indexOf_first slice_after_first)

lemma resolve_override_plain:
  "override_target req = JString t \<Longrightarrow> t \<noteq> [] \<Longrightarrow>
   ''capture'' \<notin> set (pathSegments_of req) \<Longrightarrow>
   resolve_target req = (JString t, pathname req)"
  by (simp add: resolve_target_def Let_def indexOf_absent)

lemma resolve_override_base:
  "override_target req = JString t \<Longrightarrow> t \<noteq> [] \<Longrightarrow> fst (resolve_target req) = JString t"
  by (simp add: resolve_target_def Let_def)

text \<open>
  C4, as amended. A request that carries an override target (a non-empty
  \<^verbatim>\<open>x-proxy-target\<close> header, or else, with that header absent or empty, a non-empty
  \<^verbatim>\<open>_target\<close> query parameter) resolves to that value as its base, unchanged, whatever
  the path holds. When the path has a segment \<^verbatim>\<open>capture\<close>, its forwarded path is
  \<^verbatim>\<open>/\<close> followed by the non-empty segments after the first such segment, joined by
  \<^verbatim>\<open>/\<close>, so that empty segments and a slash at the end of the inbound path are not
  forwarded; otherwise it is the whole inbound path.
\<close>

theorem override_target_is_used_verbatim:
  assumes "(map_of (req_headers req) ''x-proxy-target'' = Some t \<and> t \<noteq> [])
         \<or> ((map_of (req_headers req) ''x-proxy-target'' = None
               \<or> map_of (req_headers req) ''x-proxy-target'' = Some [])
             \<and> map_of (searchParams req) ''_target'' = Some t \<and> t \<noteq> [])"
  shows "fst (resolve_target req) = JString t
       \<and> (\<forall>pre post. pathSegments_of req = pre @ ''capture'' # post \<and> ''capture'' \<notin> set pre
            \<longrightarrow> snd (resolve_target req) = ''/'' @ join ''/'' post)
       \<and> (''capture'' \<notin> set (pathSegments_of req)
            \<longrightarrow> snd (resolve_target req) = pathname req)"
proof -
  from assms have ov: "override_target req = JString t" and ne: "t \<noteq> []"
    by (auto intro: override_from_header override_from_query)
  show ?thesis
    using ov ne
    by (auto simp add: resolve_override_base resolve_override_capture resolve_override_plain)
qed

theorem override_target_is_used_verbatim_witness:
  "resolve_target override_request = (JString ''https://llm.example/api/'', ''/openai/v1/models'')
   \<and> resolve_target (override_request\<lparr>pathname := ''/openai/v1/models'', req_headers := [],
        searchParams := [(''_target'', ''http://localhost:8080'')]\<rparr>)
      = (JString ''http://localhost:8080'', ''/openai/v1/models'')"
proof -
  have segs: "pathSegments_of override_request
              = [''functions'', ''v1''] @ ''capture'' # [''openai'', ''v1'', ''models'']"
    by (simp add: pathSegments_of_def override_request_def)
  have hdr: "map_of (req_headers override_request) ''x-proxy-target''
               = Some ''https://llm.example/api/''"
    by (simp add: override_request_def)
  note main = override_target_is_used_verbatim
               [of override_request "''https://llm.example/api/''"]
  have a: "fst (resolve_target override_request) = JString ''https://llm.example/api/''
        \<and> snd (resolve_target override_request) = ''/'' @ join ''/'' [''openai'', ''v1'', ''models'']"
    using main [THEN conjunct1] main [THEN conjunct2, THEN conjunct1, rule_format,
                 of "[''functions'', ''v1'']" "[''openai'', ''v1'', ''models'']"] segs hdr
    by simp
  let ?q = "override_request\<lparr>pathname := ''/openai/v1/models'', req_headers := [],
        searchParams := [(''_target'', ''http://localhost:8080'')]\<rparr>"
  have b: "fst (resolve_target ?q) = JString ''http://localhost:8080''
        \<and> snd (resolve_target ?q) = ''/openai/v1/models''"
    using override_target_is_used_verbatim [of ?q "''http://localhost:8080''"]
    by (simp add: override_request_def pathSegments_of_def)
  show ?thesis using a b by (simp add: prod_eq_iff)
qed

text \<open>
  The claim as written forwards the portion of the inbound path after \<^verbatim>\<open>capture\<close>.
  The path is rebuilt from its non-empty segments (line 38 filters them, line 83 joins
  them), so the slash that ends the inbound path below is not forwarded.
\<close>

theorem forwarded_path_is_rebuilt_from_segments:
  "\<not> (\<forall>req t pre post.
         map_of (req_headers req) ''x-proxy-target'' = Some t \<and> t \<noteq> []
         \<and> pathname req = pre @ ''/capture'' @ post
         \<and> ''capture'' \<notin> set (split_on CHR ''/'' pre)
         \<and> (post = [] \<or> startsWith post ''/'')
         \<longrightarrow> snd (resolve_target req) = post)"
proof
  let ?req = "override_request\<lparr>pathname := ''/functions/v1/capture/v1/models/''\<rparr>"
  assume all: "\<forall>req t pre post.
         map_of (req_headers req) ''x-proxy-target'' = Some t \<and> t \<noteq> []
         \<and> pathname req = pre @ ''/capture'' @ post
         \<and> ''capture'' \<notin> set (split_on CHR ''/'' pre)
         \<and> (post = [] \<or> startsWith post ''/'')
         \<longrightarrow> snd (resolve_target req) = post"
  have h: "map_of (req_headers ?req) ''x-proxy-target'' = Some ''https://llm.example/api/''
         \<and> ''https://llm.example/api/'' \<noteq> []
         \<and> pathname ?req = ''/functions/v1'' @ ''/capture'' @ ''/v1/models/''
         \<and> ''capture'' \<notin> set (split_on CHR ''/'' ''/functions/v1'')
         \<and> (''/v1/models/'' = [] \<or> startsWith ''/v1/models/'' ''/'')"
    by (simp add: override_request_def)
  from all [rule_format, OF h]
  have "snd (resolve_target ?req) = ''/v1/models/''" .
  moreover have "snd (resolve_target ?req) = ''/v1/models''"
    by (simp add: resolve_target_def override_target_def get_or_null_def js_or_def
          pathSegments_of_def indexOf_def slice_def override_request_def Let_def)
  ultimately show False by simp
qed

subsection \<open>The handler, stage by stage\<close>

lemma handler_preflight:
  "req_method req = ''OPTIONS'' \<Longrightarrow>
   handler w req = \<lparr>response = preflight_response, trace = []\<rparr>"
  by (simp add: handler_def)

lemma handler_try_url_throws:
  "targetUrl_of w req = Inl e \<Longrightarrow> handler_try w req = ([], Inl e)"
  by (simp add: handler_try_def)

lemma handler_try_stages:
  "targetUrl_of w req = Inr url \<Longrightarrow>
   handler_try w req =
     (snd (read_request_body req) @ snd (forward w (outbound req url))
        @ fst (logging_of w req url),
      case snd (logging_of w req url) of
        Some e \<Rightarrow> Inl e
      | None \<Rightarrow> Inr (fw_response (forwarded_of w req url)))"
  by (simp add: handler_try_def logging_of_def requestBody_of_def forwarded_of_def
           split: prod.splits option.splits)

lemma handler_url_throws:
  "req_method req \<noteq> ''OPTIONS'' \<Longrightarrow> targetUrl_of w req = Inl e \<Longrightarrow>
   handler w req = \<lparr>response = internal_error e, trace = []\<rparr>"
  by (simp add: handler_def handler_try_url_throws)

lemma handler_trace:
  "req_method req \<noteq> ''OPTIONS'' \<Longrightarrow> targetUrl_of w req = Inr url \<Longrightarrow>
   trace (handler w req) =
     snd (read_request_body req) @ snd (forward w (outbound req url))
       @ fst (logging_of w req url)"
  by (simp add: handler_def handler_try_stages split: option.splits)

lemma handler_returns:
  "req_method req \<noteq> ''OPTIONS'' \<Longrightarrow> targetUrl_of w req = Inr url \<Longrightarrow>
   snd (logging_of w req url) = None \<Longrightarrow>
   response (handler w req) = fw_response (forwarded_of w req url)"
  by (simp add: handler_def handler_try_stages)

lemma handler_logging_throws:
  "req_method req \<noteq> ''OPTIONS'' \<Longrightarrow> targetUrl_of w req = Inr url \<Longrightarrow>
   snd (logging_of w req url) = Some e \<Longrightarrow>
   response (handler w req) = internal_error e"
  by (simp add: handler_def handler_try_stages)

subsection \<open>The forwarding block\<close>

lemma forward_fetch_throws:
  "fetch w fr = Inl err \<Longrightarrow>
   forward w fr =
     (\<lparr>fw_response = bad_gateway err, responseStatus = 502, responseHeaders = [],
       responseBody = Some (''Error connecting to upstream: '' @ message err)\<rparr>, [Fetch fr])"
  by (simp add: forward_def)

lemma forward_response:
  "fetch w fr = Inr res \<Longrightarrow>
   fw_response (fst (forward w fr)) = passed_through res
   \<and> responseStatus (fst (forward w fr)) = up_status res
   \<and> responseHeaders (fst (forward w fr)) = up_headers res"
  by (simp add: forward_def Let_def split: sum.splits)

lemma forward_streaming:
  "fetch w fr = Inr res \<Longrightarrow>
   str_includes (get_or_empty (up_headers res) ''content-type'') ''text/event-stream'' \<Longrightarrow>
   forward w fr =
     (\<lparr>fw_response = passed_through res, responseStatus = up_status res,
       responseHeaders = up_headers res, responseBody = Some ''[STREAMING RESPONSE]''\<rparr>,
      [Fetch fr])"
  by (simp add: forward_def)


lemma forward_writes_nothing:
  "rows_inserted (snd (forward w fr)) = [] \<and> objects_created (snd (forward w fr)) = []"
  by (simp add: forward_def rows_inserted_def objects_created_def Let_def split: sum.splits)

lemma read_request_body_writes_nothing:
  "rows_inserted (snd (read_request_body req)) = []
   \<and> objects_created (snd (read_request_body req)) = []"
  by (simp add: read_request_body_def rows_inserted_def objects_created_def Let_def
           split: sum.splits)

subsection \<open>The logging block\<close>

lemma rows_inserted_append: "rows_inserted (xs @ ys) = rows_inserted xs @ rows_inserted ys"
  by (simp add: rows_inserted_def)

lemma objects_created_append:
  "objects_created (xs @ ys) = objects_created xs @ objects_created ys"
  by (simp add: objects_created_def)

lemma storage_fallback_rows: "rows_inserted (storage_fallback w d) = []"
  by (simp add: storage_fallback_def rows_inserted_def Let_def split: sum.splits)

lemma storage_fallback_objects:
  "objects_created (storage_fallback w d) = []
   \<or> objects_created (storage_fallback w d) = [(''capture_logs'', filePath_of w, d)]"
  by (cases "upload w ''capture_logs'' (filePath_of w) d" rule: outcome_of.cases)
     (simp_all add: storage_fallback_def objects_created_def Let_def split: sum.splits)

lemma logging_throws_iff:
  "snd (log_to_supabase w r d) = None \<longleftrightarrow> clients_created w \<and> \<not> isl (db_insert w r)"
  by (auto simp add: log_to_supabase_def clients_created_def Let_def
           split: option.splits sum.splits)

lemma rows_inserted_simps:
  "rows_inserted [] = []"
  "rows_inserted (e # es) = inserted_row e @ rows_inserted es"
  by (simp_all add: rows_inserted_def)

lemma objects_created_simps:
  "objects_created [] = []"
  "objects_created (e # es) = created_object e @ objects_created es"
  by (simp_all add: objects_created_def)

lemma log_to_supabase_rows:
  "r' \<in> set (rows_inserted (fst (log_to_supabase w r d))) \<Longrightarrow> r' = r"
  by (auto simp add: log_to_supabase_def Let_def rows_inserted_simps storage_fallback_rows
           split: option.splits sum.splits)

lemma log_to_supabase_objects:
  "(b, p, d') \<in> set (objects_created (fst (log_to_supabase w r d))) \<Longrightarrow>
   b = ''capture_logs'' \<and> d' = d"
  using storage_fallback_objects [of w d]
  by (auto simp add: log_to_supabase_def Let_def objects_created_simps
           split: option.splits sum.splits)


lemma log_to_supabase_one_sink:
  "length (rows_inserted (fst (log_to_supabase w r d)))
     + length (objects_created (fst (log_to_supabase w r d))) \<le> 1"
  using storage_fallback_objects [of w d]
  by (auto simp add: log_to_supabase_def Let_def rows_inserted_simps objects_created_simps
           storage_fallback_rows split: option.splits sum.splits)

lemma handler_rows:
  assumes "req_method req \<noteq> ''OPTIONS''" and "targetUrl_of w req = Inr url"
  shows "rows_inserted (trace (handler w req)) = rows_inserted (fst (logging_of w req url))"
    and "objects_created (trace (handler w req)) = objects_created (fst (logging_of w req url))"
  using assms
  by (simp_all add: handler_trace rows_inserted_append objects_created_append
        forward_writes_nothing read_request_body_writes_nothing)

subsection \<open>Preflight\<close>

text \<open>
  What each response the handler can return carries: the upstream's headers and nothing
  more on a response passed through; the content type of a string body alone on the 502
  response; the headers the handler sets, which name a content type, on the 500 response.
\<close>

lemma headers_carried_passed_through: "headers_carried (passed_through res) = up_headers res"
  by (simp add: headers_carried_def passed_through_def)

lemma headers_carried_bad_gateway:
  "headers_carried (bad_gateway err) = [(''content-type'', ''text/plain;charset=UTF-8'')]"
  by (simp add: headers_carried_def bad_gateway_def names_content_type_def)

lemma headers_carried_internal_error:
  "headers_carried (internal_error e)
     = corsHeaders @ [(''Content-Type'', ''application/json'')]"
  by (simp add: headers_carried_def internal_error_def names_content_type_def
        corsHeaders_def ascii_lower_def)

lemma preflight_headers_carried:
  "headers_carried preflight_response
     = corsHeaders @ [(''content-type'', ''text/plain;charset=UTF-8'')]"
  by (simp add: headers_carried_def preflight_response_def names_content_type_def
        corsHeaders_def ascii_lower_def)

text \<open>
  C3, as amended. A request whose method is \<^verbatim>\<open>OPTIONS\<close> is answered with status 200 and
  the body \<^verbatim>\<open>ok\<close>, whatever its path and headers and whatever the world. The headers
  the handler sets are exactly the fixed cross-origin allow headers; the response
  carries them and, with them, the content type that the Response constructor gives a
  string body, \<^verbatim>\<open>content-type: text/plain;charset=UTF-8\<close>: four headers in all. Nothing
  is resolved, forwarded or logged (the trace is empty).
\<close>

theorem preflight_answer:
  "req_method req = ''OPTIONS'' \<Longrightarrow>
   handler w req =
     \<lparr>response = \<lparr>status = 200, headers = corsHeaders, body = Text ''ok''\<rparr>, trace = []\<rparr>
   \<and> headers_carried (response (handler w req))
       = corsHeaders @ [(''content-type'', ''text/plain;charset=UTF-8'')]"
  by (simp add: handler_preflight preflight_headers_carried)
     (simp add: preflight_response_def)

theorem preflight_answer_witness:
  "req_method preflight_request = ''OPTIONS''
   \<and> handler unconfigured_world preflight_request =
       \<lparr>response = \<lparr>status = 200, headers = corsHeaders, body = Text ''ok''\<rparr>, trace = []\<rparr>
   \<and> headers_carried (response (handler unconfigured_world preflight_request))
       = corsHeaders @ [(''content-type'', ''text/plain;charset=UTF-8'')]"
proof -
  have m: "req_method preflight_request = ''OPTIONS''"
    by (simp add: preflight_request_def)
  show ?thesis
    using m preflight_answer [OF m, of unconfigured_world] by blast
qed

text \<open>
  The claim as written asks for an empty body and for exactly the fixed cross-origin
  allow headers. The body is \<^verbatim>\<open>ok\<close>, and, the body being a string, the response
  carries a content type as its fourth header.
\<close>

theorem preflight_body_and_headers_differ:
  "\<not> (\<forall>w req. req_method req = ''OPTIONS'' \<longrightarrow>
          body (response (handler w req)) = Text [])
   \<and> \<not> (\<forall>w req. req_method req = ''OPTIONS'' \<longrightarrow>
            headers_carried (response (handler w req)) = corsHeaders)"
proof (intro conjI)
  have m: "req_method preflight_request = ''OPTIONS''"
    by (simp add: preflight_request_def)
  show "\<not> (\<forall>w req. req_method req = ''OPTIONS'' \<longrightarrow>
          body (response (handler w req)) = Text [])"
  proof
    assume "\<forall>w req. req_method req = ''OPTIONS'' \<longrightarrow>
          body (response (handler w req)) = Text []"
    with m have "body (response (handler sample_world preflight_request)) = Text []"
      by blast
    moreover have "body (response (handler sample_world preflight_request)) = Text ''ok''"
      by (simp add: handler_preflight [OF m] preflight_response_def)
    ultimately show False by simp
  qed
  show "\<not> (\<forall>w req. req_method req = ''OPTIONS'' \<longrightarrow>
            headers_carried (response (handler w req)) = corsHeaders)"
  proof
    assume "\<forall>w req. req_method req = ''OPTIONS'' \<longrightarrow>
            headers_carried (response (handler w req)) = corsHeaders"
    with m have "headers_carried (response (handler sample_world preflight_request))
                 = corsHeaders"
      by blast
    moreover have "headers_carried (response (handler sample_world preflight_request))
                   = corsHeaders @ [(''content-type'', ''text/plain;charset=UTF-8'')]"
      by (simp add: handler_preflight [OF m] preflight_headers_carried)
    ultimately show False by simp
  qed
qed

subsection \<open>The response and the logging block\<close>

lemma forwarded_response:
  "fw_response (forwarded_of w req url) =
     (case fetch w (outbound req url) of
        Inr res \<Rightarrow> passed_through res
      | Inl err \<Rightarrow> bad_gateway err)"
  by (simp add: forwarded_of_def forward_fetch_throws forward_response split: sum.splits)

lemma logging_of_returns_iff:
  "snd (logging_of w req url) = None \<longleftrightarrow>
   clients_created w
   \<and> \<not> isl (db_insert w (row_of w req url (requestBody_of req) (forwarded_of w req url)))"
  by (simp add: logging_of_def logging_throws_iff)

text \<open>
  C2, as amended. For a request that is not a preflight and whose target URL can be
  built: when both logging clients are constructed and the insert call returns, the
  client receives the upstream's response (or the synthesized 502), whatever the insert
  reports and whatever the storage fallback does; when a client construction or the
  insert call throws, the logging block ends with that exception and the client receives
  the 500 response made from it.
\<close>

theorem response_decided_before_logging:
  assumes "req_method req \<noteq> ''OPTIONS''" and "targetUrl_of w req = Inr url"
  shows "(clients_created w
          \<and> \<not> isl (db_insert w (row_of w req url (requestBody_of req) (forwarded_of w req url)))
          \<longrightarrow> response (handler w req) =
                (case fetch w (outbound req url) of
                   Inr res \<Rightarrow> passed_through res
                 | Inl err \<Rightarrow> bad_gateway err))
       \<and> (\<not> (clients_created w
              \<and> \<not> isl (db_insert w (row_of w req url (requestBody_of req)
                                      (forwarded_of w req url))))
          \<longrightarrow> (\<exists>e. snd (logging_of w req url) = Some e
                    \<and> response (handler w req) = internal_error e))"
proof (intro conjI impI)
  assume "clients_created w
          \<and> \<not> isl (db_insert w (row_of w req url (requestBody_of req) (forwarded_of w req url)))"
  then have "snd (logging_of w req url) = None"
    by (simp add: logging_of_returns_iff)
  then show "response (handler w req) =
                (case fetch w (outbound req url) of
                   Inr res \<Rightarrow> passed_through res
                 | Inl err \<Rightarrow> bad_gateway err)"
    using assms by (simp add: handler_returns forwarded_response)
next
  assume "\<not> (clients_created w
              \<and> \<not> isl (db_insert w (row_of w req url (requestBody_of req)
                                      (forwarded_of w req url))))"
  then have "snd (logging_of w req url) \<noteq> None"
    by (simp add: logging_of_returns_iff)
  then obtain e where e: "snd (logging_of w req url) = Some e"
    by blast
  then show "\<exists>e. snd (logging_of w req url) = Some e
                    \<and> response (handler w req) = internal_error e"
    using assms by (simp add: handler_logging_throws)
qed

lemmas handler_eval =
  handler_def handler_try_def targetUrl_of_def resolve_target_def build_target_url_def
  override_target_def get_or_null_def js_or_def pathSegments_of_def ENDPOINT_MAP_get_def
  ENDPOINT_MAP_def Object_prototype_methods_def slice_def indexOf_def
  strip_trailing_slash_def strip_leading_slash_def get_or_empty_def get_or_none_def
  read_request_body_def forwardHeaders_def forward_def bad_gateway_def passed_through_def
  storage_fallback_def filePath_of_def env_or_empty_def log_to_supabase_def row_of_def
  entry_of_def outbound_def internal_error_def preflight_response_def
  sample_new_URL_def sample_upstream_def sample_world_def strict_createClient_def
  get_request_def unconfigured_world_def unlogged_world_def fallback_world_def
  unreachable_world_def streaming_upstream_def broken_upstream_def
  streaming_world_def unconfigured_streaming_world_def broken_world_def
  requestBody_of_def forwarded_of_def logging_of_def clients_created_def
  rows_inserted_def objects_created_def Let_def
  utf8_decode_def BOM_def byte_def continuation_def replacement_def
  bom_upstream_def problem_upstream_def bom_world_def problem_world_def

theorem response_decided_before_logging_witness:
  "response (handler unlogged_world (get_request ''/functions/v1/capture/foo/bar''))
     = passed_through sample_upstream
   \<and> rows_inserted (trace (handler unlogged_world
                            (get_request ''/functions/v1/capture/foo/bar''))) = []
   \<and> objects_created (trace (handler unlogged_world
                              (get_request ''/functions/v1/capture/foo/bar''))) = []"
proof -
  let ?req = "get_request ''/functions/v1/capture/foo/bar''"
  let ?url = "''https://api.anthropic.com/foo/bar''"
  have m: "req_method ?req \<noteq> ''OPTIONS''"
    by (simp add: get_request_def)
  have u: "targetUrl_of unlogged_world ?req = Inr ?url"
    by (simp add: handler_eval)
  have c: "clients_created unlogged_world
           \<and> \<not> isl (db_insert unlogged_world
                      (row_of unlogged_world ?req ?url (requestBody_of ?req)
                         (forwarded_of unlogged_world ?req ?url)))"
    by (simp add: clients_created_def unlogged_world_def sample_world_def)
  have f: "fetch unlogged_world (outbound ?req ?url) = Inr sample_upstream"
    by (simp add: unlogged_world_def sample_world_def)
  have "response (handler unlogged_world ?req) = passed_through sample_upstream"
    using response_decided_before_logging [OF m u, THEN conjunct1] c f by simp
  moreover have "rows_inserted (trace (handler unlogged_world ?req)) = []"
    by (simp add: handler_eval)
  moreover have "objects_created (trace (handler unlogged_world ?req)) = []"
    by (simp add: handler_eval)
  ultimately show ?thesis by simp
qed

text \<open>
  The claim as written fails where the logging block throws: with no logging
  configuration the handler passes empty strings to \<^verbatim>\<open>createClient\<close>, a client that
  rejects them throws outside the inner \<^verbatim>\<open>try\<close>, and the client receives the 500
  response although the upstream answered 200.
\<close>

theorem unconfigured_logging_changes_response:
  "\<not> (\<forall>w req. req_method req \<noteq> ''OPTIONS'' \<longrightarrow>
          (\<exists>url. targetUrl_of w req = Inr url
                \<and> response (handler w req) =
                    (case fetch w (outbound req url) of
                       Inr res \<Rightarrow> passed_through res
                     | Inl err \<Rightarrow> bad_gateway err)))"
proof
  let ?req = "get_request ''/functions/v1/capture/foo/bar''"
  assume "\<forall>w req. req_method req \<noteq> ''OPTIONS'' \<longrightarrow>
          (\<exists>url. targetUrl_of w req = Inr url
                \<and> response (handler w req) =
                    (case fetch w (outbound req url) of
                       Inr res \<Rightarrow> passed_through res
                     | Inl err \<Rightarrow> bad_gateway err))"
  moreover have "req_method ?req \<noteq> ''OPTIONS''"
    by (simp add: get_request_def)
  ultimately obtain url where
    "response (handler unconfigured_world ?req) =
       (case fetch unconfigured_world (outbound ?req url) of
          Inr res \<Rightarrow> passed_through res
        | Inl err \<Rightarrow> bad_gateway err)"
    by blast
  then have "response (handler unconfigured_world ?req) = passed_through sample_upstream"
    by (simp add: unconfigured_world_def sample_world_def)
  moreover have "response (handler unconfigured_world ?req)
                 = internal_error (Error ''supabaseUrl is required.'')"
    by (simp add: handler_eval)
  ultimately show False
    by (simp add: internal_error_def passed_through_def sample_upstream_def)
qed

subsection \<open>What the written records hold\<close>

lemma handler_written_row:
  assumes "req_method req \<noteq> ''OPTIONS''" and "targetUrl_of w req = Inr url"
    and "r \<in> set (rows_inserted (trace (handler w req)))"
  shows "r = row_of w req url (requestBody_of req) (forwarded_of w req url)"
  using assms log_to_supabase_rows
  by (simp add: handler_rows logging_of_def)

lemma handler_written_object:
  assumes "req_method req \<noteq> ''OPTIONS''" and "targetUrl_of w req = Inr url"
    and "(b, p, d) \<in> set (objects_created (trace (handler w req)))"
  shows "b = ''capture_logs''
       \<and> d = entry_of w req url (requestBody_of req) (forwarded_of w req url)"
  using assms log_to_supabase_objects
  by (simp add: handler_rows logging_of_def)


lemma forwarded_fetch_throws:
  "fetch w (outbound req url) = Inl err \<Longrightarrow>
   forwarded_of w req url =
     \<lparr>fw_response = bad_gateway err, responseStatus = 502, responseHeaders = [],
      responseBody = Some (''Error connecting to upstream: '' @ message err)\<rparr>"
  by (simp add: forwarded_of_def forward_fetch_throws)

lemma handler_response_cases:
  assumes "req_method req \<noteq> ''OPTIONS''"
  shows "(\<exists>e. response (handler w req) = internal_error e)
       \<or> (\<exists>url res. targetUrl_of w req = Inr url \<and> fetch w (outbound req url) = Inr res
             \<and> response (handler w req) = passed_through res)
       \<or> (\<exists>url err. targetUrl_of w req = Inr url \<and> fetch w (outbound req url) = Inl err
             \<and> response (handler w req) = bad_gateway err)"
proof (cases "targetUrl_of w req")
  case (Inl e)
  with assms have "response (handler w req) = internal_error e"
    by (simp add: handler_url_throws)
  then show ?thesis by blast
next
  case (Inr url)
  show ?thesis
  proof (cases "snd (logging_of w req url)")
    case (Some e)
    with assms Inr have "response (handler w req) = internal_error e"
      by (simp add: handler_logging_throws)
    then show ?thesis by blast
  next
    case None
    with assms Inr have "response (handler w req) = fw_response (forwarded_of w req url)"
      by (simp add: handler_returns)
    with Inr show ?thesis
      by (cases "fetch w (outbound req url)") (simp_all add: forwarded_response)
  qed
qed

subsection \<open>A failed forwarding call\<close>

text \<open>
  C8, as amended. When the forwarding call itself throws, the handler makes a response
  with status 502 and the body \<^verbatim>\<open>Error connecting to upstream: \<close> followed by the error's
  message; every row inserted and every object created carries that status and that
  body, and that response is what the caller receives whenever the logging block does
  not throw (when it does, the caller receives the 500 response of the outer catch).
  Apart from this 502, the 500 of the outer catch is the only response whose status is
  not the upstream's.
\<close>

theorem fetch_failure_becomes_502:
  assumes "req_method req \<noteq> ''OPTIONS''"
  shows "(\<forall>url err. targetUrl_of w req = Inr url \<and> fetch w (outbound req url) = Inl err \<longrightarrow>
            status (bad_gateway err) = 502
          \<and> body (bad_gateway err) = Text (''Error connecting to upstream: '' @ message err)
          \<and> (snd (logging_of w req url) = None \<longrightarrow> response (handler w req) = bad_gateway err)
          \<and> (\<forall>e. snd (logging_of w req url) = Some e \<longrightarrow>
                 response (handler w req) = internal_error e)
          \<and> (\<forall>r \<in> set (rows_inserted (trace (handler w req))).
                 response_status r = 502
               \<and> response_body r = Some (''Error connecting to upstream: '' @ message err))
          \<and> (\<forall>(b, p, d) \<in> set (objects_created (trace (handler w req))).
                 metadata_status d = 502
               \<and> entry_response_body d
                   = Some (''Error connecting to upstream: '' @ message err)))
       \<and> ((\<exists>e. response (handler w req) = internal_error e)
          \<or> (\<exists>url res. targetUrl_of w req = Inr url \<and> fetch w (outbound req url) = Inr res
                \<and> response (handler w req) = passed_through res)
          \<or> (\<exists>url err. targetUrl_of w req = Inr url \<and> fetch w (outbound req url) = Inl err
                \<and> response (handler w req) = bad_gateway err))"
proof (intro conjI allI impI)
  show "(\<exists>e. response (handler w req) = internal_error e)
          \<or> (\<exists>url res. targetUrl_of w req = Inr url \<and> fetch w (outbound req url) = Inr res
                \<and> response (handler w req) = passed_through res)
          \<or> (\<exists>url err. targetUrl_of w req = Inr url \<and> fetch w (outbound req url) = Inl err
                \<and> response (handler w req) = bad_gateway err)"
    using assms by (rule handler_response_cases)
next
  fix url err
  assume h: "targetUrl_of w req = Inr url \<and> fetch w (outbound req url) = Inl err"
  show "status (bad_gateway err) = 502"
    by (simp add: bad_gateway_def)
  show "body (bad_gateway err) = Text (''Error connecting to upstream: '' @ message err)"
    by (simp add: bad_gateway_def)
  show "response (handler w req) = bad_gateway err" if "snd (logging_of w req url) = None"
    using assms h that by (simp add: handler_returns forwarded_response)
  show "response (handler w req) = internal_error e"
    if "snd (logging_of w req url) = Some e" for e
    using assms h that by (simp add: handler_logging_throws)
  show "\<forall>r \<in> set (rows_inserted (trace (handler w req))).
           response_status r = 502
         \<and> response_body r = Some (''Error connecting to upstream: '' @ message err)"
  proof
    fix r assume "r \<in> set (rows_inserted (trace (handler w req)))"
    with assms h have "r = row_of w req url (requestBody_of req) (forwarded_of w req url)"
      by (simp add: handler_written_row)
    with h show "response_status r = 502
         \<and> response_body r = Some (''Error connecting to upstream: '' @ message err)"
      by (simp add: row_of_def forwarded_fetch_throws)
  qed
  show "\<forall>(b, p, d) \<in> set (objects_created (trace (handler w req))).
           metadata_status d = 502
         \<and> entry_response_body d = Some (''Error connecting to upstream: '' @ message err)"
  proof (clarify)
    fix b p d assume "(b, p, d) \<in> set (objects_created (trace (handler w req)))"
    with assms h have "d = entry_of w req url (requestBody_of req) (forwarded_of w req url)"
      using handler_written_object by blast
    with h show "metadata_status d = 502
         \<and> entry_response_body d = Some (''Error connecting to upstream: '' @ message err)"
      by (simp add: entry_of_def forwarded_fetch_throws)
  qed
qed

theorem fetch_failure_becomes_502_witness:
  "response (handler unreachable_world (get_request ''/functions/v1/capture/foo/bar''))
     = \<lparr>status = 502, headers = [],
        body = Text ''Error connecting to upstream: connection refused''\<rparr>
   \<and> map response_status
         (rows_inserted (trace (handler unreachable_world
                                 (get_request ''/functions/v1/capture/foo/bar'')))) = [502]
   \<and> map response_body
         (rows_inserted (trace (handler unreachable_world
                                 (get_request ''/functions/v1/capture/foo/bar''))))
       = [Some ''Error connecting to upstream: connection refused'']"
proof -
  let ?req = "get_request ''/functions/v1/capture/foo/bar''"
  let ?url = "''https://api.anthropic.com/foo/bar''"
  have m: "req_method ?req \<noteq> ''OPTIONS''"
    by (simp add: get_request_def)
  have u: "targetUrl_of unreachable_world ?req = Inr ?url"
    by (simp add: handler_eval)
  have f: "fetch unreachable_world (outbound ?req ?url) = Inl (Error ''connection refused'')"
    by (simp add: unreachable_world_def sample_world_def)
  have l: "snd (logging_of unreachable_world ?req ?url) = None"
    by (simp add: handler_eval)
  have "response (handler unreachable_world ?req) = bad_gateway (Error ''connection refused'')"
    using fetch_failure_becomes_502 [OF m, of unreachable_world, THEN conjunct1, rule_format,
            of ?url "Error ''connection refused''"] u f l
    by simp
  moreover have "map response_status
                   (rows_inserted (trace (handler unreachable_world ?req))) = [502]"
    by (simp add: handler_eval)
  moreover have "map response_body
                   (rows_inserted (trace (handler unreachable_world ?req)))
                 = [Some ''Error connecting to upstream: connection refused'']"
    by (simp add: handler_eval)
  ultimately show ?thesis by (simp add: bad_gateway_def)
qed

text \<open>
  The claim as written says that no other error changes the status the client sees. An
  override target that is not a URL makes the URL constructor throw: the upstream is
  never called, no forwarding call fails, and the client receives status 500.
\<close>

theorem invalid_target_changes_status:
  "\<not> (\<forall>w req. req_method req \<noteq> ''OPTIONS'' \<and> (\<forall>fr. \<not> isl (fetch w fr)) \<longrightarrow>
          (\<exists>fr res. fetch w fr = Inr res
                   \<and> status (response (handler w req)) = up_status res))"
proof
  assume "\<forall>w req. req_method req \<noteq> ''OPTIONS'' \<and> (\<forall>fr. \<not> isl (fetch w fr)) \<longrightarrow>
          (\<exists>fr res. fetch w fr = Inr res
                   \<and> status (response (handler w req)) = up_status res)"
  moreover have "req_method misdirected_request \<noteq> ''OPTIONS''"
    by (simp add: misdirected_request_def)
  moreover have "\<forall>fr. \<not> isl (fetch sample_world fr)"
    by (simp add: sample_world_def)
  ultimately obtain fr res where
    fr: "fetch sample_world fr = Inr res" and
    st: "status (response (handler sample_world misdirected_request)) = up_status res"
    by blast
  from fr have "res = sample_upstream"
    by (simp add: sample_world_def)
  with st have "status (response (handler sample_world misdirected_request)) = 200"
    by (simp add: sample_upstream_def)
  moreover have "handler sample_world misdirected_request
                 = \<lparr>response = internal_error (Error ''Invalid URL''), trace = []\<rparr>"
    by (simp add: handler_eval misdirected_request_def)
  ultimately show False
    by (simp add: internal_error_def)
qed

subsection \<open>The two sinks\<close>

lemma handler_one_sink:
  "length (rows_inserted (trace (handler w req)))
     + length (objects_created (trace (handler w req))) \<le> 1"
proof (cases "req_method req = ''OPTIONS''")
  case True
  then show ?thesis
    by (simp add: handler_preflight rows_inserted_simps objects_created_simps)
next
  case False
  show ?thesis
  proof (cases "targetUrl_of w req")
    case (Inl e)
    with False show ?thesis
      by (simp add: handler_url_throws rows_inserted_simps objects_created_simps)
  next
    case (Inr url)
    with False show ?thesis
      using log_to_supabase_one_sink by (simp add: handler_rows logging_of_def)
  qed
qed

lemma log_to_supabase_insert_done:
  "clients_created w \<Longrightarrow> db_insert w r = Inr None \<Longrightarrow>
   fst (log_to_supabase w r d) =
     [CreateClient (env_or_empty w ''SUPABASE_URL'') (env_or_empty w ''SUPABASE_SERVICE_ROLE_KEY''),
      CreateClient (env_or_empty w ''SUPABASE_URL'') (env_or_empty w ''SUPABASE_ANON_KEY''),
      Insert r Done]"
  by (simp add: log_to_supabase_def clients_created_def Let_def)

lemma log_to_supabase_insert_refused:
  "clients_created w \<Longrightarrow> db_insert w r = Inr (Some e) \<Longrightarrow>
   fst (log_to_supabase w r d) =
     [CreateClient (env_or_empty w ''SUPABASE_URL'') (env_or_empty w ''SUPABASE_SERVICE_ROLE_KEY''),
      CreateClient (env_or_empty w ''SUPABASE_URL'') (env_or_empty w ''SUPABASE_ANON_KEY''),
      Insert r Refused] @ storage_fallback w d"
  by (simp add: log_to_supabase_def clients_created_def Let_def)

lemma storage_fallback_uploads:
  "\<not> isl (getBucket w ''capture_logs'') \<Longrightarrow> \<not> isl (createBucket w ''capture_logs'') \<Longrightarrow>
   upload w ''capture_logs'' (filePath_of w) d = Inr None \<Longrightarrow>
   objects_created (storage_fallback w d) = [(''capture_logs'', filePath_of w, d)]"
  by (cases "createBucket w ''capture_logs''" rule: outcome_of.cases)
     (auto simp add: storage_fallback_def objects_created_simps Let_def split: sum.splits)

lemma storage_fallback_no_upload:
  "isl (getBucket w ''capture_logs'') \<or> upload w ''capture_logs'' (filePath_of w) d \<noteq> Inr None \<Longrightarrow>
   objects_created (storage_fallback w d) = []"
  by (cases "upload w ''capture_logs'' (filePath_of w) d" rule: outcome_of.cases)
     (auto simp add: storage_fallback_def objects_created_simps Let_def split: sum.splits)

text \<open>
  C9, as amended. Whatever the request and the world, the handler leaves at most one
  written record: a row or an object, never both. For a forwarded request whose logging
  clients were constructed: when the insert succeeds, the row is in the table and the
  storage service is not called at all; when the insert reports an error, no row is
  inserted and the fallback leaves either no object or exactly one, in the container
  \<^verbatim>\<open>capture_logs\<close>: exactly one when \<^verbatim>\<open>getBucket\<close> and \<^verbatim>\<open>createBucket\<close> do not throw
  and the upload succeeds, none when \<^verbatim>\<open>getBucket\<close> throws or the upload does not
  succeed.
\<close>

theorem log_written_to_at_most_one_sink:
  "length (rows_inserted (trace (handler w req)))
     + length (objects_created (trace (handler w req))) \<le> 1
   \<and> (req_method req \<noteq> ''OPTIONS'' \<and> targetUrl_of w req = Inr url \<and> clients_created w \<longrightarrow>
        (db_insert w (row_of w req url (requestBody_of req) (forwarded_of w req url)) = Inr None
           \<longrightarrow> rows_inserted (trace (handler w req))
                 = [row_of w req url (requestBody_of req) (forwarded_of w req url)]
               \<and> objects_created (trace (handler w req)) = []
               \<and> fst (logging_of w req url) =
                   [CreateClient (env_or_empty w ''SUPABASE_URL'')
                                 (env_or_empty w ''SUPABASE_SERVICE_ROLE_KEY''),
                    CreateClient (env_or_empty w ''SUPABASE_URL'')
                                 (env_or_empty w ''SUPABASE_ANON_KEY''),
                    Insert (row_of w req url (requestBody_of req) (forwarded_of w req url))
                           Done])
      \<and> (\<forall>e. db_insert w (row_of w req url (requestBody_of req) (forwarded_of w req url))
                 = Inr (Some e)
           \<longrightarrow> rows_inserted (trace (handler w req)) = []
               \<and> (objects_created (trace (handler w req)) = []
                  \<or> objects_created (trace (handler w req))
                     = [(''capture_logs'', filePath_of w,
                         entry_of w req url (requestBody_of req) (forwarded_of w req url))])
               \<and> (\<not> isl (getBucket w ''capture_logs'') \<and> \<not> isl (createBucket w ''capture_logs'')
                   \<and> upload w ''capture_logs'' (filePath_of w)
                        (entry_of w req url (requestBody_of req) (forwarded_of w req url))
                      = Inr None
                   \<longrightarrow> objects_created (trace (handler w req))
                        = [(''capture_logs'', filePath_of w,
                            entry_of w req url (requestBody_of req) (forwarded_of w req url))])
               \<and> (isl (getBucket w ''capture_logs'')
                   \<or> upload w ''capture_logs'' (filePath_of w)
                        (entry_of w req url (requestBody_of req) (forwarded_of w req url))
                      \<noteq> Inr None
                   \<longrightarrow> objects_created (trace (handler w req)) = [])))"
proof (intro conjI impI allI)
  show "length (rows_inserted (trace (handler w req)))
     + length (objects_created (trace (handler w req))) \<le> 1"
    by (rule handler_one_sink)
next
  let ?r = "row_of w req url (requestBody_of req) (forwarded_of w req url)"
  let ?d = "entry_of w req url (requestBody_of req) (forwarded_of w req url)"
  assume h: "req_method req \<noteq> ''OPTIONS'' \<and> targetUrl_of w req = Inr url \<and> clients_created w"
  {
    assume ok: "db_insert w ?r = Inr None"
    from h ok show "rows_inserted (trace (handler w req)) = [?r]"
      by (simp add: handler_rows logging_of_def log_to_supabase_insert_done
            rows_inserted_simps)
    from h ok show "objects_created (trace (handler w req)) = []"
      by (simp add: handler_rows logging_of_def log_to_supabase_insert_done
            objects_created_simps)
    from h ok show "fst (logging_of w req url) =
                   [CreateClient (env_or_empty w ''SUPABASE_URL'')
                                 (env_or_empty w ''SUPABASE_SERVICE_ROLE_KEY''),
                    CreateClient (env_or_empty w ''SUPABASE_URL'')
                                 (env_or_empty w ''SUPABASE_ANON_KEY''),
                    Insert ?r Done]"
      by (simp add: logging_of_def log_to_supabase_insert_done)
  }
  fix e
  assume bad: "db_insert w ?r = Inr (Some e)"
  from h bad have objs: "objects_created (trace (handler w req))
                         = objects_created (storage_fallback w ?d)"
    by (simp add: handler_rows logging_of_def log_to_supabase_insert_refused
          objects_created_simps)
  from h bad show "rows_inserted (trace (handler w req)) = []"
    by (simp add: handler_rows logging_of_def log_to_supabase_insert_refused
          rows_inserted_simps storage_fallback_rows)
  show "objects_created (trace (handler w req)) = []
        \<or> objects_created (trace (handler w req)) = [(''capture_logs'', filePath_of w, ?d)]"
    using storage_fallback_objects [of w ?d] by (simp add: objs)
  show "objects_created (trace (handler w req)) = [(''capture_logs'', filePath_of w, ?d)]"
    if "\<not> isl (getBucket w ''capture_logs'') \<and> \<not> isl (createBucket w ''capture_logs'')
        \<and> upload w ''capture_logs'' (filePath_of w) ?d = Inr None"
    using that by (simp add: objs storage_fallback_uploads)
  show "objects_created (trace (handler w req)) = []"
    if "isl (getBucket w ''capture_logs'')
        \<or> upload w ''capture_logs'' (filePath_of w) ?d \<noteq> Inr None"
    using that by (simp add: objs storage_fallback_no_upload)
qed

theorem log_written_to_at_most_one_sink_witness:
  "rows_inserted (trace (handler fallback_world (get_request ''/functions/v1/capture/foo/bar'')))
     = []
   \<and> map (\<lambda>(b, p, d). (b, p))
         (objects_created (trace (handler fallback_world
                                   (get_request ''/functions/v1/capture/foo/bar''))))
       = [(''capture_logs'', ''2024-02-05T10-20-30-123Z_123e4567.json'')]"
proof -
  let ?w = fallback_world
  let ?req = "get_request ''/functions/v1/capture/foo/bar''"
  let ?url = "''https://api.anthropic.com/foo/bar''"
  let ?r = "row_of ?w ?req ?url (requestBody_of ?req) (forwarded_of ?w ?req ?url)"
  let ?d = "entry_of ?w ?req ?url (requestBody_of ?req) (forwarded_of ?w ?req ?url)"
  have h: "req_method ?req \<noteq> ''OPTIONS'' \<and> targetUrl_of ?w ?req = Inr ?url
           \<and> clients_created ?w"
    by (simp add: handler_eval)
  have bad: "db_insert ?w ?r = Inr (Some (Error ''relation api_logs does not exist''))"
    by (simp add: fallback_world_def sample_world_def)
  have up: "\<not> isl (getBucket ?w ''capture_logs'') \<and> \<not> isl (createBucket ?w ''capture_logs'')
            \<and> upload ?w ''capture_logs'' (filePath_of ?w) ?d = Inr None"
    by (simp add: fallback_world_def sample_world_def)
  note main = log_written_to_at_most_one_sink [of ?w ?req ?url, THEN conjunct2, rule_format,
                OF h, THEN conjunct2, rule_format, OF bad]
  have "rows_inserted (trace (handler ?w ?req)) = []"
    using main by simp
  moreover have "objects_created (trace (handler ?w ?req))
                 = [(''capture_logs'', filePath_of ?w, ?d)]"
    using main up by simp
  moreover have "filePath_of ?w = ''2024-02-05T10-20-30-123Z_123e4567.json''"
    by (simp add: filePath_of_def fallback_world_def sample_world_def)
  ultimately show ?thesis by simp
qed

text \<open>
  The claim as written promises exactly one object whenever the insert fails. With the
  table missing and the storage service out of reach, \<^verbatim>\<open>getBucket\<close> throws inside the
  inner \<^verbatim>\<open>try\<close>, the upload is never attempted, and the record is in neither sink.
\<close>

theorem failed_fallback_leaves_no_object:
  "\<not> (\<forall>w req url e.
         req_method req \<noteq> ''OPTIONS'' \<and> targetUrl_of w req = Inr url \<and> clients_created w
         \<and> db_insert w (row_of w req url (requestBody_of req) (forwarded_of w req url))
             = Inr (Some e)
         \<longrightarrow> length (objects_created (trace (handler w req))) = 1
             \<and> rows_inserted (trace (handler w req)) = [])"
proof
  let ?w = unlogged_world
  let ?req = "get_request ''/functions/v1/capture/foo/bar''"
  let ?url = "''https://api.anthropic.com/foo/bar''"
  assume all: "\<forall>w req url e.
         req_method req \<noteq> ''OPTIONS'' \<and> targetUrl_of w req = Inr url \<and> clients_created w
         \<and> db_insert w (row_of w req url (requestBody_of req) (forwarded_of w req url))
             = Inr (Some e)
         \<longrightarrow> length (objects_created (trace (handler w req))) = 1
             \<and> rows_inserted (trace (handler w req)) = []"
  have h: "req_method ?req \<noteq> ''OPTIONS'' \<and> targetUrl_of ?w ?req = Inr ?url
           \<and> clients_created ?w
           \<and> db_insert ?w (row_of ?w ?req ?url (requestBody_of ?req)
                             (forwarded_of ?w ?req ?url))
               = Inr (Some (Error ''relation api_logs does not exist''))"
    by (simp add: handler_eval)
  from all [rule_format, OF h]
  have "length (objects_created (trace (handler ?w ?req))) = 1"
    by simp
  moreover have "objects_created (trace (handler ?w ?req)) = []"
    by (simp add: handler_eval)
  ultimately show False by simp
qed

subsection \<open>JSON and text bodies\<close>









subsection \<open>Event streams\<close>

lemma read_request_body_no_response_read:
  "ReadResponseText \<notin> set (snd (read_request_body req))"
  by (simp add: read_request_body_def Let_def split: sum.splits)

lemma storage_fallback_no_response_read:
  "ReadResponseText \<notin> set (storage_fallback w d)"
  by (simp add: storage_fallback_def Let_def split: sum.splits)

lemma log_to_supabase_no_response_read:
  "ReadResponseText \<notin> set (fst (log_to_supabase w r d))"
  by (simp add: log_to_supabase_def Let_def storage_fallback_no_response_read
        split: option.splits sum.splits)

lemma forwarded_streaming:
  "fetch w (outbound req url) = Inr res \<Longrightarrow>
   str_includes (get_or_empty (up_headers res) ''content-type'') ''text/event-stream'' \<Longrightarrow>
   responseBody (forwarded_of w req url) = Some ''[STREAMING RESPONSE]''"
  by (simp add: forwarded_of_def forward_streaming)

text \<open>
  C7, as amended. For an upstream response whose content type includes
  \<^verbatim>\<open>text/event-stream\<close>, whatever its body: the handler never reads the body (no buffered
  read is in the trace), the response it holds is the upstream's with the body stream
  untouched, every row inserted and every object created has the fixed sentinel
  \<^verbatim>\<open>[STREAMING RESPONSE]\<close> as its response body, and the caller receives that response
  whenever the logging block does not throw (when it does, the caller receives the 500
  response of the outer catch).
\<close>

theorem event_stream_is_not_buffered:
  assumes "req_method req \<noteq> ''OPTIONS''" and "targetUrl_of w req = Inr url"
    and "fetch w (outbound req url) = Inr res"
    and "str_includes (get_or_empty (up_headers res) ''content-type'') ''text/event-stream''"
  shows "ReadResponseText \<notin> set (trace (handler w req))
       \<and> fw_response (forwarded_of w req url) = passed_through res
       \<and> body (passed_through res) = Stream (up_body res)
       \<and> (snd (logging_of w req url) = None \<longrightarrow> response (handler w req) = passed_through res)
       \<and> (\<forall>e. snd (logging_of w req url) = Some e \<longrightarrow>
              response (handler w req) = internal_error e)
       \<and> (\<forall>r \<in> set (rows_inserted (trace (handler w req))).
              response_body r = Some ''[STREAMING RESPONSE]'')
       \<and> (\<forall>(b, p, d) \<in> set (objects_created (trace (handler w req))).
              entry_response_body d = Some ''[STREAMING RESPONSE]'')"
proof (intro conjI)
  have fw: "fw_response (forwarded_of w req url) = passed_through res"
    using assms(3) by (simp add: forwarded_response)
  have rb: "responseBody (forwarded_of w req url) = Some ''[STREAMING RESPONSE]''"
    using assms(3,4) by (rule forwarded_streaming)
  show "ReadResponseText \<notin> set (trace (handler w req))"
    using assms
    by (simp add: handler_trace forward_streaming read_request_body_no_response_read
          logging_of_def log_to_supabase_no_response_read)
  show "fw_response (forwarded_of w req url) = passed_through res"
    by (rule fw)
  show "body (passed_through res) = Stream (up_body res)"
    by (simp add: passed_through_def)
  show "snd (logging_of w req url) = None \<longrightarrow> response (handler w req) = passed_through res"
    using assms(1,2) fw by (simp add: handler_returns)
  show "\<forall>e. snd (logging_of w req url) = Some e \<longrightarrow>
              response (handler w req) = internal_error e"
    using assms(1,2) by (simp add: handler_logging_throws)
  show "\<forall>r \<in> set (rows_inserted (trace (handler w req))).
              response_body r = Some ''[STREAMING RESPONSE]''"
  proof
    fix r assume "r \<in> set (rows_inserted (trace (handler w req)))"
    with assms(1,2)
    have "r = row_of w req url (requestBody_of req) (forwarded_of w req url)"
      by (rule handler_written_row)
    with rb show "response_body r = Some ''[STREAMING RESPONSE]''"
      by (simp add: row_of_def)
  qed
  show "\<forall>(b, p, d) \<in> set (objects_created (trace (handler w req))).
              entry_response_body d = Some ''[STREAMING RESPONSE]''"
  proof (clarify)
    fix b p d assume "(b, p, d) \<in> set (objects_created (trace (handler w req)))"
    with assms(1,2)
    have "d = entry_of w req url (requestBody_of req) (forwarded_of w req url)"
      using handler_written_object by blast
    with rb show "entry_response_body d = Some ''[STREAMING RESPONSE]''"
      by (simp add: entry_of_def)
  qed
qed

theorem event_stream_is_not_buffered_witness:
  "response (handler streaming_world (get_request ''/functions/v1/capture/openai/v1/chat''))
     = passed_through streaming_upstream
   \<and> ReadResponseText
       \<notin> set (trace (handler streaming_world
                        (get_request ''/functions/v1/capture/openai/v1/chat'')))
   \<and> map response_body
         (rows_inserted (trace (handler streaming_world
                                 (get_request ''/functions/v1/capture/openai/v1/chat''))))
       = [Some ''[STREAMING RESPONSE]'']"
proof -
  let ?w = streaming_world
  let ?req = "get_request ''/functions/v1/capture/openai/v1/chat''"
  let ?url = "''https://api.openai.com/v1/chat''"
  have m: "req_method ?req \<noteq> ''OPTIONS''"
    by (simp add: get_request_def)
  have u: "targetUrl_of ?w ?req = Inr ?url"
    by (simp add: handler_eval)
  have f: "fetch ?w (outbound ?req ?url) = Inr streaming_upstream"
    by (simp add: streaming_world_def sample_world_def)
  have s: "str_includes (get_or_empty (up_headers streaming_upstream) ''content-type'')
             ''text/event-stream''"
    by (simp add: streaming_upstream_def get_or_empty_def)
  have l: "snd (logging_of ?w ?req ?url) = None"
    by (simp add: handler_eval)
  note main = event_stream_is_not_buffered [OF m u f s]
  have "response (handler ?w ?req) = passed_through streaming_upstream"
    using main l by blast
  moreover have "ReadResponseText \<notin> set (trace (handler ?w ?req))"
    using main by blast
  moreover have "map response_body (rows_inserted (trace (handler ?w ?req)))
                 = [Some ''[STREAMING RESPONSE]'']"
    by (simp add: handler_eval)
  ultimately show ?thesis by simp
qed

text \<open>
  The claim as written says the stream reaches the caller. Where the logging block
  throws (here: no logging configuration, and a client that rejects the empty strings it
  is given), the caller receives the 500 response of the outer catch, not the stream.
\<close>

theorem event_stream_lost_when_logging_throws:
  "\<not> (\<forall>w req url res.
         req_method req \<noteq> ''OPTIONS'' \<and> targetUrl_of w req = Inr url
         \<and> fetch w (outbound req url) = Inr res
         \<and> str_includes (get_or_empty (up_headers res) ''content-type'') ''text/event-stream''
         \<longrightarrow> response (handler w req) = passed_through res)"
proof
  let ?w = unconfigured_streaming_world
  let ?req = "get_request ''/functions/v1/capture/openai/v1/chat''"
  let ?url = "''https://api.openai.com/v1/chat''"
  assume all: "\<forall>w req url res.
         req_method req \<noteq> ''OPTIONS'' \<and> targetUrl_of w req = Inr url
         \<and> fetch w (outbound req url) = Inr res
         \<and> str_includes (get_or_empty (up_headers res) ''content-type'') ''text/event-stream''
         \<longrightarrow> response (handler w req) = passed_through res"
  have h: "req_method ?req \<noteq> ''OPTIONS'' \<and> targetUrl_of ?w ?req = Inr ?url
         \<and> fetch ?w (outbound ?req ?url) = Inr streaming_upstream
         \<and> str_includes (get_or_empty (up_headers streaming_upstream) ''content-type'')
              ''text/event-stream''"
    by (simp add: handler_eval)
  from all [rule_format, OF h]
  have "response (handler ?w ?req) = passed_through streaming_upstream" .
  moreover have "response (handler ?w ?req)
                 = internal_error (Error ''supabaseUrl is required.'')"
    by (simp add: handler_eval)
  ultimately show False
    by (simp add: internal_error_def passed_through_def streaming_upstream_def)
qed

subsection \<open>Where the cross-origin headers go\<close>





subsection \<open>The alias scan\<close>

lemma alias_scan_first:
  "\<forall>s \<in> set pre. \<not> truthy (ENDPOINT_MAP_get s) \<Longrightarrow> truthy (ENDPOINT_MAP_get a) \<Longrightarrow>
   alias_scan (pre @ a # post) i = (int i + int (length pre), a)"
  by (induction pre arbitrary: i) auto

lemma alias_scan_none:
  "\<forall>s \<in> set segs. \<not> truthy (ENDPOINT_MAP_get s) \<Longrightarrow> alias_scan segs i = (- 1, [])"
  by (induction segs arbitrary: i) auto

lemma ENDPOINT_MAP_values_not_empty: "map_of ENDPOINT_MAP a = Some base \<Longrightarrow> base \<noteq> []"
  by (auto simp add: ENDPOINT_MAP_def split: if_splits)

lemma ENDPOINT_MAP_get_own:
  "map_of ENDPOINT_MAP a = Some base \<Longrightarrow> ENDPOINT_MAP_get a = JString base"
  by (simp add: ENDPOINT_MAP_get_def)

lemma ENDPOINT_MAP_get_truthy:
  "truthy (ENDPOINT_MAP_get s) \<longleftrightarrow>
   s \<in> fst ` set ENDPOINT_MAP \<or> s \<in> set Object_prototype_methods"
proof (cases "map_of ENDPOINT_MAP s")
  case None
  then have "s \<notin> fst ` set ENDPOINT_MAP"
    by (simp add: map_of_eq_None_iff)
  with None show ?thesis
    by (simp add: ENDPOINT_MAP_get_def)
next
  case (Some base)
  then have "s \<in> fst ` set ENDPOINT_MAP"
    by (meson domI domIff map_of_eq_None_iff)
  with Some show ?thesis
    by (simp add: ENDPOINT_MAP_get_def ENDPOINT_MAP_values_not_empty)
qed

text \<open>
  Where no earlier segment is a name every object inherits, the first segment that is a
  key of the table selects its entry, and the forwarded path is made of the segments
  after it.
\<close>

lemma resolve_alias:
  assumes "\<not> truthy (override_target req)"
    and "pathSegments_of req = pre @ a # post"
    and "map_of ENDPOINT_MAP a = Some base"
    and "\<forall>s \<in> set pre. s \<notin> fst ` set ENDPOINT_MAP \<and> s \<notin> set Object_prototype_methods"
  shows "resolve_target req = (JString base, ''/'' @ join ''/'' post)"
proof -
  from assms(3) have a: "ENDPOINT_MAP_get a = JString base" and "base \<noteq> []"
    by (simp_all add: ENDPOINT_MAP_get_own ENDPOINT_MAP_values_not_empty)
  then have "truthy (ENDPOINT_MAP_get a)" by simp
  moreover from assms(4) have "\<forall>s \<in> set pre. \<not> truthy (ENDPOINT_MAP_get s)"
    by (simp add: ENDPOINT_MAP_get_truthy)
  ultimately have "alias_scan (pre @ a # post) 0 = (int (length pre), a)"
    using alias_scan_first [of pre a post 0] by simp
  with assms(1,2) a show ?thesis
    by (simp add: resolve_target_def Let_def slice_after_first)
qed

text \<open>
  Where no segment is a key of the table or a name every object inherits, the base is
  the default upstream; the forwarded path is made of the segments after the first
  \<^verbatim>\<open>capture\<close>, or else of the segments after the third when the path starts with
  \<^verbatim>\<open>/functions/v1\<close> and has three segments at least, or else is the inbound path.
\<close>

lemma resolve_default:
  assumes "\<not> truthy (override_target req)"
    and "\<forall>s \<in> set (pathSegments_of req).
           s \<notin> fst ` set ENDPOINT_MAP \<and> s \<notin> set Object_prototype_methods"
  shows "fst (resolve_target req) = JString ''https://api.anthropic.com''"
    and "pathSegments_of req = pre @ ''capture'' # post \<Longrightarrow> ''capture'' \<notin> set pre \<Longrightarrow>
         snd (resolve_target req) = ''/'' @ join ''/'' post"
    and "''capture'' \<notin> set (pathSegments_of req) \<Longrightarrow>
         snd (resolve_target req) =
           (if 3 \<le> length (pathSegments_of req) \<and> pathSegments_of req ! 0 = ''functions''
               \<and> pathSegments_of req ! 1 = ''v1''
            then ''/'' @ join ''/'' (drop 3 (pathSegments_of req))
            else pathname req)"
proof -
  from assms(2) have "\<forall>s \<in> set (pathSegments_of req). \<not> truthy (ENDPOINT_MAP_get s)"
    by (simp add: ENDPOINT_MAP_get_truthy)
  then have scan: "alias_scan (pathSegments_of req) 0 = (- 1, [])"
    by (rule alias_scan_none)
  show "fst (resolve_target req) = JString ''https://api.anthropic.com''"
    using assms(1) scan by (simp add: resolve_target_def Let_def)
  show "snd (resolve_target req) = ''/'' @ join ''/'' post"
    if "pathSegments_of req = pre @ ''capture'' # post" "''capture'' \<notin> set pre"
    using assms(1) scan that
    by (simp add: resolve_target_def Let_def indexOf_first slice_after_first)
  show "snd (resolve_target req) =
           (if 3 \<le> length (pathSegments_of req) \<and> pathSegments_of req ! 0 = ''functions''
               \<and> pathSegments_of req ! 1 = ''v1''
            then ''/'' @ join ''/'' (drop 3 (pathSegments_of req))
            else pathname req)"
    if "''capture'' \<notin> set (pathSegments_of req)"
    using assms(1) scan that
    by (simp add: resolve_target_def Let_def indexOf_absent slice_def)
qed

text \<open>
  The two examples of the specification, for any world whose URL constructor joins these
  paths to these bases as the URL Standard does.
\<close>

lemma example_alias_target:
  "new_URL w ''v1/chat/completions'' ''https://api.openai.com/''
     = Inr ''https://api.openai.com/v1/chat/completions'' \<Longrightarrow>
   targetUrl_of w (get_request ''/functions/v1/capture/openai/v1/chat/completions'')
     = Inr ''https://api.openai.com/v1/chat/completions''"
  by (simp add: targetUrl_of_def resolve_target_def build_target_url_def
        override_target_def get_or_null_def js_or_def pathSegments_of_def ENDPOINT_MAP_get_def
        ENDPOINT_MAP_def Object_prototype_methods_def slice_def indexOf_def
        strip_trailing_slash_def strip_leading_slash_def get_request_def Let_def)

lemma example_default_target:
  "new_URL w ''foo/bar'' ''https://api.anthropic.com/''
     = Inr ''https://api.anthropic.com/foo/bar'' \<Longrightarrow>
   targetUrl_of w (get_request ''/functions/v1/capture/foo/bar'')
     = Inr ''https://api.anthropic.com/foo/bar''"
  by (simp add: targetUrl_of_def resolve_target_def build_target_url_def
        override_target_def get_or_null_def js_or_def pathSegments_of_def ENDPOINT_MAP_get_def
        ENDPOINT_MAP_def Object_prototype_methods_def slice_def indexOf_def
        strip_trailing_slash_def strip_leading_slash_def get_request_def Let_def)

text \<open>
  C1 (failing input). \<^verbatim>\<open>ENDPOINT_MAP[pathSegments[i]]\<close> is also truthy for a segment
  that names a method every object inherits. In the path below the segment
  \<^verbatim>\<open>constructor\<close> comes before the alias \<^verbatim>\<open>openai\<close>: the scan stops there,
  \<open>targetBase\<close> becomes the inherited function instead of \<^verbatim>\<open>https://api.openai.com\<close>,
  \<^verbatim>\<open>targetBase.replace\<close> throws, and the client receives the 500 response; nothing is
  forwarded.
\<close>

theorem inherited_name_taken_for_alias:
  "resolve_target (get_request ''/functions/v1/capture/constructor/openai/v1/chat/completions'')
     = (JFunction ''constructor'', ''/openai/v1/chat/completions'')
   \<and> handler w (get_request ''/functions/v1/capture/constructor/openai/v1/chat/completions'')
     = \<lparr>response = internal_error (Error ''targetBase.replace is not a function''),
        trace = []\<rparr>"
  by (simp add: handler_def handler_try_def targetUrl_of_def resolve_target_def
        build_target_url_def
        override_target_def get_or_null_def js_or_def pathSegments_of_def ENDPOINT_MAP_get_def
        ENDPOINT_MAP_def Object_prototype_methods_def slice_def indexOf_def
        get_request_def Let_def)

text \<open>
  C5 (failing input). The path below has no alias segment and the request no override,
  so the default upstream \<^verbatim>\<open>https://api.anthropic.com\<close> and the forwarded path
  \<^verbatim>\<open>/v1/toString\<close> are due. The segment \<^verbatim>\<open>toString\<close> is taken for an alias instead:
  \<open>targetBase\<close> is the inherited function, the fallback branch is never entered, and
  the client receives the 500 response.
\<close>

theorem inherited_name_bypasses_default:
  "resolve_target (get_request ''/functions/v1/capture/v1/toString'')
     = (JFunction ''toString'', ''/'')
   \<and> handler w (get_request ''/functions/v1/capture/v1/toString'')
     = \<lparr>response = internal_error (Error ''targetBase.replace is not a function''),
        trace = []\<rparr>"
  by (simp add: handler_def handler_try_def targetUrl_of_def resolve_target_def
        build_target_url_def
        override_target_def get_or_null_def js_or_def pathSegments_of_def ENDPOINT_MAP_get_def
        ENDPOINT_MAP_def Object_prototype_methods_def slice_def indexOf_def
        get_request_def Let_def)

end
